theory Spec2Isabelle
  imports Complex_Main
begin

section \<open>JavaScript values\<close>

text \<open>
  The client (the React component file with the exchange rate and the period filter) and
  the server (the Express file with \<^verbatim>\<open>/api/rate\<close> and \<^verbatim>\<open>added_date\<close>) work on JSON
  data. A number is an IEEE double in the program; here a finite number is an exact
  rational, and \<open>NaN\<close> and the two infinities are values of their own. Rounding and the
  sign of zero are not modelled: no statement below depends on the value an arithmetic
  operation rounds to.
\<close>

datatype jsnum = NaN | Fin rat | PosInf | NegInf

datatype jsval = JUndefined | JNull | JBool bool | JNum jsnum | JStr string

text \<open>A record of the collection is a JSON object: a finite map from property names to
  values of primitive type. A property that is absent reads as \<open>undefined\<close>.\<close>

type_synonym obj = "string \<rightharpoonup> jsval"

definition get :: "obj \<Rightarrow> string \<Rightarrow> jsval" where
  "get b k = (case b k of None \<Rightarrow> JUndefined | Some v \<Rightarrow> v)"

text \<open>
  Conversions between strings and numbers are built into the language and not code of the
  repository; they are parameters of the model, as is \<^verbatim>\<open>String.prototype.trim\<close>.
\<close>

record js_builtins =
  StringToNumber :: "string \<Rightarrow> jsnum"
  NumberToString :: "jsnum \<Rightarrow> string"
  trim :: "string \<Rightarrow> string"

text \<open>\<^verbatim>\<open>Number(v)\<close>\<close>

definition ToNumber :: "js_builtins \<Rightarrow> jsval \<Rightarrow> jsnum" where
  "ToNumber E v =
     (case v of
        JUndefined \<Rightarrow> NaN
      | JNull \<Rightarrow> Fin 0
      | JBool t \<Rightarrow> Fin (if t then 1 else 0)
      | JNum n \<Rightarrow> n
      | JStr s \<Rightarrow> StringToNumber E s)"

text \<open>\<^verbatim>\<open>String(v)\<close>\<close>

definition ToString :: "js_builtins \<Rightarrow> jsval \<Rightarrow> string" where
  "ToString E v =
     (case v of
        JUndefined \<Rightarrow> ''undefined''
      | JNull \<Rightarrow> ''null''
      | JBool t \<Rightarrow> (if t then ''true'' else ''false'')
      | JNum n \<Rightarrow> NumberToString E n
      | JStr s \<Rightarrow> s)"

text \<open>Truthiness of a number (\<open>0\<close> and \<open>NaN\<close> are falsy) and of a value.\<close>

definition truthy_num :: "jsnum \<Rightarrow> bool" where
  "truthy_num n = (n \<noteq> NaN \<and> n \<noteq> Fin 0)"

definition truthy :: "jsval \<Rightarrow> bool" where
  "truthy v =
     (case v of
        JUndefined \<Rightarrow> False
      | JNull \<Rightarrow> False
      | JBool t \<Rightarrow> t
      | JNum n \<Rightarrow> truthy_num n
      | JStr s \<Rightarrow> s \<noteq> [])"

text \<open>\<^verbatim>\<open>a || b\<close> on numbers and on values.\<close>

definition num_or :: "jsnum \<Rightarrow> jsnum \<Rightarrow> jsnum" where
  "num_or a b = (if truthy_num a then a else b)"

definition js_or :: "jsval \<Rightarrow> jsval \<Rightarrow> jsval" where
  "js_or a b = (if truthy a then a else b)"

text \<open>\<^verbatim>\<open>a === b\<close>: equal values of the same type, and \<open>NaN\<close> equal to nothing.\<close>

definition strict_eq :: "jsval \<Rightarrow> jsval \<Rightarrow> bool" where
  "strict_eq a b = (a = b \<and> a \<noteq> JNum NaN)"

text \<open>\<^verbatim>\<open>Number.isFinite\<close> and the comparison \<^verbatim>\<open>a < b\<close> of two numbers.\<close>

definition isFinite :: "jsnum \<Rightarrow> bool" where
  "isFinite n = (case n of Fin _ \<Rightarrow> True | _ \<Rightarrow> False)"

fun jlt :: "jsnum \<Rightarrow> jsnum \<Rightarrow> bool" where
  "jlt NaN _ = False"
| "jlt _ NaN = False"
| "jlt (Fin a) (Fin b) = (a < b)"
| "jlt (Fin _) PosInf = True"
| "jlt (Fin _) NegInf = False"
| "jlt PosInf _ = False"
| "jlt NegInf NegInf = False"
| "jlt NegInf _ = True"

text \<open>Arithmetic: unary minus, \<open>+\<close>, \<open>-\<close>, \<open>*\<close>, \<open>/\<close>.\<close>

fun jneg :: "jsnum \<Rightarrow> jsnum" where
  "jneg NaN = NaN"
| "jneg (Fin a) = Fin (- a)"
| "jneg PosInf = NegInf"
| "jneg NegInf = PosInf"

fun jadd :: "jsnum \<Rightarrow> jsnum \<Rightarrow> jsnum" where
  "jadd NaN _ = NaN"
| "jadd _ NaN = NaN"
| "jadd (Fin a) (Fin b) = Fin (a + b)"
| "jadd (Fin _) PosInf = PosInf"
| "jadd (Fin _) NegInf = NegInf"
| "jadd PosInf NegInf = NaN"
| "jadd PosInf _ = PosInf"
| "jadd NegInf PosInf = NaN"
| "jadd NegInf _ = NegInf"

definition jsub :: "jsnum \<Rightarrow> jsnum \<Rightarrow> jsnum" where
  "jsub a b = jadd a (jneg b)"

text \<open>The sign of an infinite result: \<open>pos\<close> tells whether it is positive.\<close>

definition inf_of :: "bool \<Rightarrow> jsnum" where
  "inf_of pos = (if pos then PosInf else NegInf)"

fun jmul :: "jsnum \<Rightarrow> jsnum \<Rightarrow> jsnum" where
  "jmul NaN _ = NaN"
| "jmul _ NaN = NaN"
| "jmul (Fin a) (Fin b) = Fin (a * b)"
| "jmul (Fin a) PosInf = (if a = 0 then NaN else inf_of (0 < a))"
| "jmul (Fin a) NegInf = (if a = 0 then NaN else inf_of (a < 0))"
| "jmul PosInf (Fin b) = (if b = 0 then NaN else inf_of (0 < b))"
| "jmul NegInf (Fin b) = (if b = 0 then NaN else inf_of (b < 0))"
| "jmul PosInf PosInf = PosInf"
| "jmul PosInf NegInf = NegInf"
| "jmul NegInf PosInf = NegInf"
| "jmul NegInf NegInf = PosInf"

text \<open>Division. A zero divisor is taken as \<open>+0\<close>; the program guards every division by
  the truthiness of the divisor, so that case is never reached.\<close>

fun jdiv :: "jsnum \<Rightarrow> jsnum \<Rightarrow> jsnum" where
  "jdiv NaN _ = NaN"
| "jdiv _ NaN = NaN"
| "jdiv (Fin a) (Fin b) =
     (if b = 0 then (if a = 0 then NaN else inf_of (0 < a)) else Fin (a / b))"
| "jdiv (Fin _) PosInf = Fin 0"
| "jdiv (Fin _) NegInf = Fin 0"
| "jdiv PosInf (Fin b) = inf_of (0 \<le> b)"
| "jdiv NegInf (Fin b) = inf_of (b < 0)"
| "jdiv PosInf _ = NaN"
| "jdiv NegInf _ = NaN"

text \<open>\<^verbatim>\<open>Math.round\<close>: the nearest integer, a tie going up.\<close>

definition Math_round :: "jsnum \<Rightarrow> jsnum" where
  "Math_round n = (case n of Fin a \<Rightarrow> Fin (of_int \<lfloor>a + 1 / 2\<rfloor>) | _ \<Rightarrow> n)"

text \<open>A value handed to the display: a number, a literal string, or the string
  \<^verbatim>\<open>x.toFixed(d)\<close>, kept as the pair of \<open>d\<close> and \<open>x\<close>.\<close>

datatype jsout = OutNum jsnum | OutStr string | ToFixed nat jsnum

section \<open>Constants and the monetary normalizer\<close>

text \<open>\<^verbatim>\<open>const STATUS = { WON: .., LOST: .., PENDING: .. }\<close>: three Russian words, written
  here as their UTF-8 bytes.\<close>

definition STATUS_WON :: string where
  "STATUS_WON = [CHR 0xD0, CHR 0x92, CHR 0xD1, CHR 0x8B, CHR 0xD0, CHR 0xB8, CHR 0xD0, CHR 0xB3,
     CHR 0xD1, CHR 0x80, CHR 0xD0, CHR 0xB0, CHR 0xD0, CHR 0xBD, CHR 0xD0, CHR 0xB0]"

definition STATUS_LOST :: string where
  "STATUS_LOST = [CHR 0xD0, CHR 0x9F, CHR 0xD1, CHR 0x80, CHR 0xD0, CHR 0xBE, CHR 0xD0, CHR 0xB8,
     CHR 0xD0, CHR 0xB3, CHR 0xD1, CHR 0x80, CHR 0xD0, CHR 0xB0, CHR 0xD0, CHR 0xBD, CHR 0xD0,
     CHR 0xB0]"

definition STATUS_PENDING :: string where
  "STATUS_PENDING = [CHR 0xD0, CHR 0x9D, CHR 0xD0, CHR 0xB5, CHR 0xD1, CHR 0x80, CHR 0xD0,
     CHR 0xB0, CHR 0xD1, CHR 0x81, CHR 0xD1, CHR 0x87, CHR 0xD0, CHR 0xB8, CHR 0xD1, CHR 0x82,
     CHR 0xD0, CHR 0xB0, CHR 0xD0, CHR 0xBD, CHR 0xD0, CHR 0xB0]"

definition DEFAULT_RUB_RATE :: jsnum where
  "DEFAULT_RUB_RATE = Fin (8078 / 100)"

text \<open>The idiom \<^verbatim>\<open>Number(x) || 0\<close>.\<close>

definition numOr0 :: "js_builtins \<Rightarrow> jsval \<Rightarrow> jsnum" where
  "numOr0 E v = num_or (ToNumber E v) (Fin 0)"

text \<open>\<^verbatim>\<open>
function normalizedWinValue(b){
  const win = Number(b.win_value) || 0
  const stake = Number(b.stake_value) || 0
  if (b.status === STATUS.LOST){ return win < 0 ? win : (stake ? -stake : 0) }
  if (b.status === STATUS.PENDING){ return 0 }
  return (win - stake)
}\<close>\<close>

definition normalizedWinValue :: "js_builtins \<Rightarrow> obj \<Rightarrow> jsnum" where
  "normalizedWinValue E b =
     (let win = numOr0 E (get b ''win_value'');
          stake = numOr0 E (get b ''stake_value'')
      in if strict_eq (get b ''status'') (JStr STATUS_LOST)
         then (if jlt win (Fin 0) then win else (if truthy_num stake then jneg stake else Fin 0))
         else if strict_eq (get b ''status'') (JStr STATUS_PENDING) then Fin 0
         else jsub win stake)"

text \<open>The older copy of the component (\<^verbatim>\<open>client/src/App.jsx\<close>, before the exchange rate
  was added) differs in its last line, \<^verbatim>\<open>return win\<close>.\<close>

definition normalizedWinValue_legacy :: "js_builtins \<Rightarrow> obj \<Rightarrow> jsnum" where
  "normalizedWinValue_legacy E b =
     (let win = numOr0 E (get b ''win_value'');
          stake = numOr0 E (get b ''stake_value'')
      in if strict_eq (get b ''status'') (JStr STATUS_LOST)
         then (if jlt win (Fin 0) then win else (if truthy_num stake then jneg stake else Fin 0))
         else if strict_eq (get b ''status'') (JStr STATUS_PENDING) then Fin 0
         else win)"

text \<open>\<^verbatim>\<open>const betUnit = (b) => (b.stake_currency || b.win_currency || 'USDT')\<close>\<close>

definition betUnit :: "obj \<Rightarrow> jsval" where
  "betUnit b = js_or (js_or (get b ''stake_currency'') (get b ''win_currency'')) (JStr ''USDT'')"

text \<open>\<^verbatim>\<open>
const toUSDT = (amount, b, rubRate) => {
  const unit = betUnit(b)
  if (unit === 'RUB') return amount / (Number(rubRate) || DEFAULT_RUB_RATE)
  return amount
}\<close>\<close>

definition toUSDT :: "js_builtins \<Rightarrow> jsnum \<Rightarrow> obj \<Rightarrow> jsval \<Rightarrow> jsnum" where
  "toUSDT E amount b rubRate =
     (let unit = betUnit b
      in if strict_eq unit (JStr ''RUB'')
         then jdiv amount (num_or (ToNumber E rubRate) DEFAULT_RUB_RATE)
         else amount)"

subsection \<open>Strings of digits\<close>

fun digits_value :: "string \<Rightarrow> nat \<Rightarrow> nat" where
  "digits_value [] acc = acc"
| "digits_value (c # cs) acc = digits_value cs (10 * acc + (of_char c - 48))"

definition is_digit :: "char \<Rightarrow> bool" where
  "is_digit c = (48 \<le> (of_char c :: nat) \<and> (of_char c :: nat) \<le> 57)"

definition digits :: "string \<Rightarrow> bool" where
  "digits s = list_all is_digit s"

definition is_space :: "char \<Rightarrow> bool" where
  "is_space c = ((of_char c :: nat) \<in> {9, 10, 11, 12, 13, 32})"

text \<open>\<^verbatim>\<open>String(n)\<close> for an integer \<open>n\<close>.\<close>

definition digit_char :: "nat \<Rightarrow> char" where
  "digit_char n = char_of (48 + n)"

function dec_nat :: "nat \<Rightarrow> string" where
  "dec_nat n = (if n < 10 then [digit_char n] else dec_nat (n div 10) @ [digit_char (n mod 10)])"
  by pat_completeness auto
termination
  by (relation "measure id") auto

declare dec_nat.simps [simp del]

definition int_to_string :: "int \<Rightarrow> string" where
  "int_to_string i = (if i < 0 then CHR ''-'' # dec_nat (nat (- i)) else dec_nat (nat i))"

text \<open>The pieces of a string between the occurrences of a character.\<close>

fun split_at :: "char \<Rightarrow> string \<Rightarrow> string list" where
  "split_at c [] = [[]]"
| "split_at c (x # xs) =
     (if x = c then [] # split_at c xs
      else (case split_at c xs of [] \<Rightarrow> [[x]] | p # ps \<Rightarrow> (x # p) # ps))"

subsection \<open>Stand-ins for the built-in conversions\<close>

text \<open>
  Where a statement is instantiated at a concrete input, the three built-in conversions
  are these. \<open>ascii_trim\<close> strips the ASCII white space. \<open>decimal_to_number\<close> reads, after
  trimming, the empty string as 0 and a plain decimal literal (an optional sign, digits,
  an optional point and digits) as its value; it reads no exponent, no other radix and no
  \<^verbatim>\<open>Infinity\<close>. \<open>number_to_decimal\<close> writes an integer in decimal digits; it has no
  notation for a fraction. The instances below use them inside these limits only.
\<close>

definition ascii_trim :: "string \<Rightarrow> string" where
  "ascii_trim s = rev (dropWhile is_space (rev (dropWhile is_space s)))"

definition unsigned_decimal :: "string \<Rightarrow> rat option" where
  "unsigned_decimal s =
     (case split_at CHR ''.'' s of
        [a] \<Rightarrow> if a \<noteq> [] \<and> digits a then Some (of_nat (digits_value a 0)) else None
      | [a, b] \<Rightarrow>
          if (a \<noteq> [] \<or> b \<noteq> []) \<and> digits a \<and> digits b
          then Some (of_nat (digits_value a 0) + of_nat (digits_value b 0) / 10 ^ length b)
          else None
      | _ \<Rightarrow> None)"

definition decimal_to_number :: "string \<Rightarrow> jsnum" where
  "decimal_to_number s =
     (case ascii_trim s of
        [] \<Rightarrow> Fin 0
      | c # cs \<Rightarrow>
          if c = CHR ''-'' then (case unsigned_decimal cs of None \<Rightarrow> NaN | Some r \<Rightarrow> Fin (- r))
          else if c = CHR ''+'' then (case unsigned_decimal cs of None \<Rightarrow> NaN | Some r \<Rightarrow> Fin r)
          else (case unsigned_decimal (c # cs) of None \<Rightarrow> NaN | Some r \<Rightarrow> Fin r))"

definition number_to_decimal :: "jsnum \<Rightarrow> string" where
  "number_to_decimal n =
     (case n of
        NaN \<Rightarrow> ''NaN''
      | PosInf \<Rightarrow> ''Infinity''
      | NegInf \<Rightarrow> ''-Infinity''
      | Fin r \<Rightarrow> if of_int \<lfloor>r\<rfloor> = r then int_to_string \<lfloor>r\<rfloor> else ''(fraction)'')"

definition sample_builtins :: js_builtins where
  "sample_builtins =
     \<lparr> StringToNumber = decimal_to_number,
       NumberToString = number_to_decimal,
       trim = ascii_trim \<rparr>"

section \<open>Properties of the normalizer\<close>

lemma STATUS_distinct:
  "STATUS_WON \<noteq> STATUS_LOST" "STATUS_WON \<noteq> STATUS_PENDING" "STATUS_LOST \<noteq> STATUS_PENDING"
  "STATUS_LOST \<noteq> STATUS_WON" "STATUS_PENDING \<noteq> STATUS_WON" "STATUS_PENDING \<noteq> STATUS_LOST"
  by (simp_all add: STATUS_WON_def STATUS_LOST_def STATUS_PENDING_def)

lemma strict_eq_JStr [simp]: "strict_eq v (JStr s) = (v = JStr s)"
  by (auto simp: strict_eq_def)

lemma numOr0_not_NaN: "numOr0 E v \<noteq> NaN"
  by (simp add: numOr0_def num_or_def truthy_num_def)

lemma numOr0_JNum: "n \<noteq> NaN \<Longrightarrow> numOr0 E (JNum n) = n"
  by (auto simp: numOr0_def num_or_def truthy_num_def ToNumber_def)

lemma truthy_numOr0: "truthy_num (numOr0 E v) = (numOr0 E v \<noteq> Fin 0)"
  by (simp add: truthy_num_def numOr0_not_NaN)


text \<open>On a finite number the idiom \<^verbatim>\<open>Number(x) || 0\<close> is the identity.\<close>

lemma numOr0_Fin: "numOr0 E (JNum (Fin a)) = Fin a"
  by (auto simp: numOr0_def num_or_def truthy_num_def ToNumber_def)

text \<open>A lost bet whose stake is negative: \<^verbatim>\<open>{status: LOST, win_value: 0, stake_value: -5}\<close>.\<close>

definition lost_negative_stake :: obj where
  "lost_negative_stake =
     [''status'' \<mapsto> JStr STATUS_LOST, ''win_value'' \<mapsto> JNum (Fin 0),
      ''stake_value'' \<mapsto> JNum (Fin (- 5))]"

text \<open>The older copy shares the branches for LOST and PENDING, and returns the payout
  itself for every other status.\<close>

lemma normalizedWinValue_legacy_cases:
  "normalizedWinValue_legacy E b =
     (if get b ''status'' = JStr STATUS_LOST \<or> get b ''status'' = JStr STATUS_PENDING
      then normalizedWinValue E b else numOr0 E (get b ''win_value''))"
  by (simp add: normalizedWinValue_legacy_def normalizedWinValue_def Let_def)

lemma normalizedWinValue_legacy_won:
  "get b ''status'' = JStr STATUS_WON \<Longrightarrow>
     normalizedWinValue_legacy E b = numOr0 E (get b ''win_value'')"
  by (simp add: normalizedWinValue_legacy_cases STATUS_distinct)

text \<open>The scenario of the specification:
  \<^verbatim>\<open>{status: WON, stake_value: 100, coef: 2, win_value: 200}\<close>.\<close>

definition won_scenario :: obj where
  "won_scenario =
     [''status'' \<mapsto> JStr STATUS_WON, ''stake_value'' \<mapsto> JNum (Fin 100),
      ''coef'' \<mapsto> JNum (Fin 2), ''win_value'' \<mapsto> JNum (Fin 200)]"

text \<open>
  Claim C1, as the code has it. The repository holds two copies of the normalizer. With
  \<open>win\<close> and \<open>stake\<close> the two fields read through \<^verbatim>\<open>Number(x) || 0\<close>:
  \<^item> in the current component (\<open>normalizedWinValue\<close>) a bet whose status is WON yields
    \<open>win - stake\<close>; in the older copy (\<open>normalizedWinValue_legacy\<close>) it yields \<open>win\<close>;
  \<^item> in both copies a bet whose status is LOST yields \<open>win\<close> when \<open>win < 0\<close>, else
    \<open>- stake\<close> when \<open>stake\<close> is not zero, else \<open>0\<close>. The test on the stake is one of
    truthiness, so for a stake that is not negative this is the case the specification
    writes (\<open>- stake\<close> when \<open>stake > 0\<close>, else \<open>0\<close>);
  \<^item> in both copies a bet whose status is PENDING yields \<open>0\<close>.
\<close>

theorem normalizedWinValue_contract:
  fixes E :: js_builtins and b :: obj
  defines "win \<equiv> numOr0 E (get b ''win_value'')"
      and "stake \<equiv> numOr0 E (get b ''stake_value'')"
  shows "(get b ''status'' = JStr STATUS_WON \<longrightarrow>
            normalizedWinValue E b = jsub win stake \<and> normalizedWinValue_legacy E b = win)
       \<and> (get b ''status'' = JStr STATUS_LOST \<longrightarrow>
            normalizedWinValue E b =
              (if jlt win (Fin 0) then win else if stake \<noteq> Fin 0 then jneg stake else Fin 0)
            \<and> normalizedWinValue_legacy E b = normalizedWinValue E b)
       \<and> (get b ''status'' = JStr STATUS_LOST \<and> \<not> jlt stake (Fin 0) \<longrightarrow>
            normalizedWinValue E b =
              (if jlt win (Fin 0) then win else if jlt (Fin 0) stake then jneg stake else Fin 0)
            \<and> normalizedWinValue_legacy E b = normalizedWinValue E b)
       \<and> (get b ''status'' = JStr STATUS_PENDING \<longrightarrow>
            normalizedWinValue E b = Fin 0 \<and> normalizedWinValue_legacy E b = Fin 0)"
proof -
  have nn: "stake \<noteq> NaN"
    by (simp add: stake_def numOr0_not_NaN)
  have tr: "truthy_num stake = (stake \<noteq> Fin 0)"
    by (simp add: stake_def truthy_numOr0)
  have pos: "\<not> jlt stake (Fin 0) \<Longrightarrow> jlt (Fin 0) stake = (stake \<noteq> Fin 0)"
    using nn by (cases stake) auto
  have won: "get b ''status'' = JStr STATUS_WON \<Longrightarrow> normalizedWinValue E b = jsub win stake"
    by (simp add: normalizedWinValue_def Let_def STATUS_distinct win_def stake_def)
  have won': "get b ''status'' = JStr STATUS_WON \<Longrightarrow> normalizedWinValue_legacy E b = win"
    by (simp add: normalizedWinValue_legacy_won win_def)
  have lost: "get b ''status'' = JStr STATUS_LOST \<Longrightarrow>
      normalizedWinValue E b =
        (if jlt win (Fin 0) then win else if stake \<noteq> Fin 0 then jneg stake else Fin 0)"
    using tr by (simp add: normalizedWinValue_def Let_def win_def stake_def)
  have lost': "get b ''status'' = JStr STATUS_LOST \<Longrightarrow>
      normalizedWinValue_legacy E b = normalizedWinValue E b"
    by (simp add: normalizedWinValue_legacy_cases)
  have pending: "get b ''status'' = JStr STATUS_PENDING \<Longrightarrow> normalizedWinValue E b = Fin 0"
    by (simp add: normalizedWinValue_def Let_def STATUS_distinct)
  have pending': "get b ''status'' = JStr STATUS_PENDING \<Longrightarrow>
      normalizedWinValue_legacy E b = Fin 0"
    using pending by (simp add: normalizedWinValue_legacy_cases)
  show ?thesis
    using won won' lost lost' pending pending' pos by simp
qed

text \<open>The contract at the scenario of the specification (net profit 100 in the current
  component, the payout 200 in the older copy), at
  \<^verbatim>\<open>{status: LOST, stake_value: 50, win_value: 0}\<close> (minus 50 in both) and at a pending
  bet (0 in both).\<close>

theorem normalizedWinValue_contract_witness:
  "normalizedWinValue sample_builtins won_scenario = Fin 100
   \<and> normalizedWinValue_legacy sample_builtins won_scenario = Fin 200
   \<and> normalizedWinValue sample_builtins
     [''status'' \<mapsto> JStr STATUS_LOST, ''stake_value'' \<mapsto> JNum (Fin 50),
      ''win_value'' \<mapsto> JNum (Fin 0)] = Fin (- 50)
   \<and> normalizedWinValue_legacy sample_builtins
     [''status'' \<mapsto> JStr STATUS_LOST, ''stake_value'' \<mapsto> JNum (Fin 50),
      ''win_value'' \<mapsto> JNum (Fin 0)] = Fin (- 50)
   \<and> normalizedWinValue sample_builtins
     [''status'' \<mapsto> JStr STATUS_PENDING, ''stake_value'' \<mapsto> JNum (Fin 50),
      ''win_value'' \<mapsto> JNum (Fin 70)] = Fin 0
   \<and> normalizedWinValue_legacy sample_builtins
     [''status'' \<mapsto> JStr STATUS_PENDING, ''stake_value'' \<mapsto> JNum (Fin 50),
      ''win_value'' \<mapsto> JNum (Fin 70)] = Fin 0"
  using normalizedWinValue_contract [of won_scenario sample_builtins]
    normalizedWinValue_contract [of
      "[''status'' \<mapsto> JStr STATUS_LOST, ''stake_value'' \<mapsto> JNum (Fin 50),
        ''win_value'' \<mapsto> JNum (Fin 0)]" sample_builtins]
    normalizedWinValue_contract [of
      "[''status'' \<mapsto> JStr STATUS_PENDING, ''stake_value'' \<mapsto> JNum (Fin 50),
        ''win_value'' \<mapsto> JNum (Fin 70)]" sample_builtins]
  by (simp add: won_scenario_def get_def numOr0_Fin jsub_def)

text \<open>The claim as the specification words it fails twice. On a lost bet with a negative
  stake the stake is not greater than zero and the payout is not negative, so the
  specification gives \<open>0\<close>, and both copies return \<open>5\<close>. On the won bet of the
  specification's scenario (stake 100, payout 200) the specification gives the net profit
  \<open>100\<close>, and the older copy returns \<open>200\<close>.\<close>

theorem normalizedWinValue_negative_stake_counterexample:
  "get lost_negative_stake ''status'' = JStr STATUS_LOST
   \<and> get lost_negative_stake ''win_value'' = JNum (Fin 0)
   \<and> get lost_negative_stake ''stake_value'' = JNum (Fin (- 5))
   \<and> \<not> jlt (Fin 0) (Fin 0) \<and> \<not> jlt (Fin 0) (Fin (- 5))
   \<and> normalizedWinValue sample_builtins lost_negative_stake = Fin 5
   \<and> normalizedWinValue sample_builtins lost_negative_stake \<noteq> Fin 0
   \<and> normalizedWinValue_legacy sample_builtins lost_negative_stake = Fin 5
   \<and> get won_scenario ''status'' = JStr STATUS_WON
   \<and> get won_scenario ''win_value'' = JNum (Fin 200)
   \<and> get won_scenario ''stake_value'' = JNum (Fin 100)
   \<and> normalizedWinValue_legacy sample_builtins won_scenario = Fin 200
   \<and> normalizedWinValue_legacy sample_builtins won_scenario \<noteq> jsub (Fin 200) (Fin 100)"
  by (simp add: lost_negative_stake_def won_scenario_def get_def normalizedWinValue_def
      normalizedWinValue_legacy_def numOr0_Fin truthy_num_def jsub_def STATUS_distinct)

section \<open>Statistics aggregator\<close>

text \<open>\<^verbatim>\<open>
function calcStats(bets, rubRate){
  const eligible = bets.filter(b => b.status !== STATUS.PENDING)
  const total = eligible.length
  const won = eligible.filter(b=>b.status===STATUS.WON).length
  const winRate = total? Math.round(won/total*100):0
  const profitUSDT = eligible.reduce((a,b)=> a + toUSDT(normalizedWinValue(b), b, rubRate), 0)
  const sumStakesUSDT = eligible.reduce((a,b)=> a + toUSDT(Number(b.stake_value)||0, b, rubRate), 0)
  const roi = sumStakesUSDT? ((profitUSDT / sumStakesUSDT) * 100).toFixed(1) : '0.0'
  const avgOdds = total? (eligible.reduce((a,b)=> a+(Number(b.coef)||0),0)/total).toFixed(2):0
  return { total, winRate, profitUSDT, avgOdds, roi }
}\<close>
  The local constants are definitions of their own, so that statements can name them.
  \<open>winRate\<close>, \<open>roi\<close> and \<open>avgOdds\<close> are the values of exact arithmetic; the doubles of
  the program can round to a neighbouring value (23 won of 40 is 57.49999999999999 and
  rounds to 57 there, and is 57.5 and rounds to 58 here), and a sum of stakes that is zero
  here can be a tiny number there.\<close>

definition is_pending :: "obj \<Rightarrow> bool" where
  "is_pending b = strict_eq (get b ''status'') (JStr STATUS_PENDING)"

definition eligible :: "obj list \<Rightarrow> obj list" where
  "eligible bets = filter (\<lambda>b. \<not> is_pending b) bets"

definition won :: "obj list \<Rightarrow> nat" where
  "won bets = length (filter (\<lambda>b. strict_eq (get b ''status'') (JStr STATUS_WON)) (eligible bets))"

definition profitUSDT_of :: "js_builtins \<Rightarrow> obj list \<Rightarrow> jsval \<Rightarrow> jsnum" where
  "profitUSDT_of E bets rubRate =
     foldl (\<lambda>a b. jadd a (toUSDT E (normalizedWinValue E b) b rubRate)) (Fin 0) (eligible bets)"

definition sumStakesUSDT :: "js_builtins \<Rightarrow> obj list \<Rightarrow> jsval \<Rightarrow> jsnum" where
  "sumStakesUSDT E bets rubRate =
     foldl (\<lambda>a b. jadd a (toUSDT E (numOr0 E (get b ''stake_value'')) b rubRate)) (Fin 0)
       (eligible bets)"

definition sumOdds :: "js_builtins \<Rightarrow> obj list \<Rightarrow> jsnum" where
  "sumOdds E bets = foldl (\<lambda>a b. jadd a (numOr0 E (get b ''coef''))) (Fin 0) (eligible bets)"

record stats =
  total :: nat
  winRate :: jsnum
  profitUSDT :: jsnum
  avgOdds :: jsout
  roi :: jsout

definition calcStats :: "js_builtins \<Rightarrow> obj list \<Rightarrow> jsval \<Rightarrow> stats" where
  "calcStats E bets rubRate =
     (let n = length (eligible bets);
          profit = profitUSDT_of E bets rubRate;
          stakes = sumStakesUSDT E bets rubRate
      in \<lparr> total = n,
           winRate = (if n \<noteq> 0
                      then Math_round (jmul (jdiv (Fin (of_nat (won bets))) (Fin (of_nat n))) (Fin 100))
                      else Fin 0),
           profitUSDT = profit,
           avgOdds = (if n \<noteq> 0 then ToFixed 2 (jdiv (sumOdds E bets) (Fin (of_nat n)))
                      else OutNum (Fin 0)),
           roi = (if truthy_num stakes then ToFixed 1 (jmul (jdiv profit stakes) (Fin 100))
                  else OutStr ''0.0'') \<rparr>)"

text \<open>The bets of a list that are not pending, in their order.\<close>

definition decided :: "obj list \<Rightarrow> obj list" where
  "decided bets = filter (\<lambda>b. get b ''status'' \<noteq> JStr STATUS_PENDING) bets"

lemma is_pending_iff: "is_pending b = (get b ''status'' = JStr STATUS_PENDING)"
  by (simp add: is_pending_def)

lemma eligible_decided: "eligible bets = decided bets"
  by (simp add: eligible_def decided_def is_pending_iff)

lemma decided_idem: "decided (decided bets) = decided bets"
  by (simp add: decided_def)

lemma calcStats_depends_on_decided:
  assumes "decided xs = decided ys"
  shows "calcStats E xs r = calcStats E ys r"
proof -
  have e: "eligible xs = eligible ys"
    using assms by (simp add: eligible_decided)
  have "won xs = won ys" "profitUSDT_of E xs r = profitUSDT_of E ys r"
    "sumStakesUSDT E xs r = sumStakesUSDT E ys r" "sumOdds E xs = sumOdds E ys"
    by (simp_all add: won_def profitUSDT_of_def sumStakesUSDT_def sumOdds_def e)
  then show ?thesis
    by (simp add: calcStats_def Let_def e)
qed

text \<open>
  Claim C2. A pending bet has the normalized result \<open>0\<close>. The eligible bets are exactly the
  bets that are not pending, and every value the aggregator computes (the count, the number
  of won bets, the profit, the sum of the stakes, the sum of the odds, and with them
  \<open>winRate\<close>, \<open>roi\<close> and \<open>avgOdds\<close>) is the same for two lists that have the same bets
  that are not pending: the pending bets of a list, however many and whatever their
  fields, enter no numerator, no denominator and no sum.
\<close>

theorem pending_excluded_from_stats:
  "(get b ''status'' = JStr STATUS_PENDING \<longrightarrow> normalizedWinValue E b = Fin 0)
   \<and> (\<forall>x \<in> set (eligible bets). get x ''status'' \<noteq> JStr STATUS_PENDING)
   \<and> eligible bets = decided bets
   \<and> total (calcStats E bets r) = length (decided bets)
   \<and> (decided xs = decided ys \<longrightarrow>
        calcStats E xs r = calcStats E ys r
        \<and> won xs = won ys
        \<and> profitUSDT_of E xs r = profitUSDT_of E ys r
        \<and> sumStakesUSDT E xs r = sumStakesUSDT E ys r
        \<and> sumOdds E xs = sumOdds E ys)
   \<and> calcStats E bets r = calcStats E (decided bets) r"
proof -
  have p: "get b ''status'' = JStr STATUS_PENDING \<longrightarrow> normalizedWinValue E b = Fin 0"
    by (simp add: normalizedWinValue_def Let_def STATUS_distinct)
  have m: "\<forall>x \<in> set (eligible bets). get x ''status'' \<noteq> JStr STATUS_PENDING"
    by (simp add: eligible_decided decided_def)
  have t: "total (calcStats E bets r) = length (decided bets)"
    by (simp add: calcStats_def Let_def eligible_decided)
  have d: "decided xs = decided ys \<longrightarrow>
        calcStats E xs r = calcStats E ys r
        \<and> won xs = won ys
        \<and> profitUSDT_of E xs r = profitUSDT_of E ys r
        \<and> sumStakesUSDT E xs r = sumStakesUSDT E ys r
        \<and> sumOdds E xs = sumOdds E ys"
  proof (intro impI conjI)
    assume h: "decided xs = decided ys"
    show "calcStats E xs r = calcStats E ys r"
      using h by (rule calcStats_depends_on_decided)
    show "won xs = won ys"
      using h by (simp add: won_def eligible_decided)
    show "profitUSDT_of E xs r = profitUSDT_of E ys r"
      using h by (simp add: profitUSDT_of_def eligible_decided)
    show "sumStakesUSDT E xs r = sumStakesUSDT E ys r"
      using h by (simp add: sumStakesUSDT_def eligible_decided)
    show "sumOdds E xs = sumOdds E ys"
      using h by (simp add: sumOdds_def eligible_decided)
  qed
  have i: "calcStats E bets r = calcStats E (decided bets) r"
    by (rule calcStats_depends_on_decided) (simp add: decided_idem)
  show ?thesis
    using p m t d i eligible_decided by - (intro conjI; assumption)
qed

text \<open>Three bets for concrete instances: a won one (stake 100, payout 200, odds 2), a
  pending one (stake 50, payout 70, odds 3) and one whose status is no known word.\<close>

definition won_bet :: obj where
  "won_bet = [''status'' \<mapsto> JStr STATUS_WON, ''stake_value'' \<mapsto> JNum (Fin 100),
     ''coef'' \<mapsto> JNum (Fin 2), ''win_value'' \<mapsto> JNum (Fin 200)]"

definition pending_bet :: obj where
  "pending_bet = [''status'' \<mapsto> JStr STATUS_PENDING, ''stake_value'' \<mapsto> JNum (Fin 50),
     ''coef'' \<mapsto> JNum (Fin 3), ''win_value'' \<mapsto> JNum (Fin 70)]"

definition odd_status_bet :: obj where
  "odd_status_bet = [''status'' \<mapsto> JStr ''void'', ''stake_value'' \<mapsto> JNum (Fin 10),
     ''coef'' \<mapsto> JNum (Fin 3), ''win_value'' \<mapsto> JNum (Fin 4)]"

lemma sample_status:
  "get won_bet ''status'' = JStr STATUS_WON"
  "get pending_bet ''status'' = JStr STATUS_PENDING"
  "get odd_status_bet ''status'' = JStr ''void''"
  by (simp_all add: get_def won_bet_def pending_bet_def odd_status_bet_def)

lemma void_not_status:
  "''void'' \<noteq> STATUS_WON" "''void'' \<noteq> STATUS_LOST" "''void'' \<noteq> STATUS_PENDING"
  by (simp_all add: STATUS_WON_def STATUS_LOST_def STATUS_PENDING_def)

theorem pending_excluded_from_stats_witness:
  "normalizedWinValue sample_builtins pending_bet = Fin 0
   \<and> decided [pending_bet, won_bet] = decided [won_bet, pending_bet, pending_bet]
   \<and> calcStats sample_builtins [pending_bet, won_bet] (JNum (Fin 80))
       = calcStats sample_builtins [won_bet, pending_bet, pending_bet] (JNum (Fin 80))
   \<and> total (calcStats sample_builtins [pending_bet, won_bet] (JNum (Fin 80))) = 1
   \<and> calcStats sample_builtins [pending_bet, won_bet] (JNum (Fin 80))
       = calcStats sample_builtins [won_bet] (JNum (Fin 80))"
proof -
  have d1: "decided [pending_bet, won_bet] = [won_bet]"
    by (simp add: decided_def sample_status STATUS_distinct)
  have d2: "decided [won_bet, pending_bet, pending_bet] = [won_bet]"
    by (simp add: decided_def sample_status STATUS_distinct)
  note thm1 = pending_excluded_from_stats [of pending_bet sample_builtins "[pending_bet, won_bet]"
      "JNum (Fin 80)" "[pending_bet, won_bet]" "[won_bet, pending_bet, pending_bet]"]
  have a: "normalizedWinValue sample_builtins pending_bet = Fin 0"
    using thm1 by (simp add: sample_status)
  have t: "total (calcStats sample_builtins [pending_bet, won_bet] (JNum (Fin 80)))
       = length (decided [pending_bet, won_bet])"
    using thm1 by - (elim conjE, assumption)
  have i: "decided [pending_bet, won_bet] = decided [won_bet, pending_bet, pending_bet] \<longrightarrow>
       calcStats sample_builtins [pending_bet, won_bet] (JNum (Fin 80))
       = calcStats sample_builtins [won_bet, pending_bet, pending_bet] (JNum (Fin 80))"
    using thm1 [THEN conjunct2, THEN conjunct2, THEN conjunct2, THEN conjunct2, THEN conjunct1]
    by blast
  have d: "calcStats sample_builtins [pending_bet, won_bet] (JNum (Fin 80))
       = calcStats sample_builtins (decided [pending_bet, won_bet]) (JNum (Fin 80))"
    using thm1 by - (elim conjE, assumption)
  have b: "calcStats sample_builtins [pending_bet, won_bet] (JNum (Fin 80))
       = calcStats sample_builtins [won_bet, pending_bet, pending_bet] (JNum (Fin 80))"
    using i by (simp only: d1 d2 simp_thms)
  have c: "total (calcStats sample_builtins [pending_bet, won_bet] (JNum (Fin 80))) = 1"
    using t by (simp add: d1)
  show ?thesis
    using a b c d by (simp add: d1 d2)
qed

text \<open>Adding one bet to a list: what it does to the two counts behind \<open>winRate\<close>.\<close>

lemma eligible_append: "eligible (xs @ ys) = eligible xs @ eligible ys"
  by (simp add: eligible_def)

lemma eligible_Cons:
  "eligible (b # ys) = (if get b ''status'' = JStr STATUS_PENDING then eligible ys else b # eligible ys)"
  by (simp add: eligible_def is_pending_iff)

lemma won_insert:
  "won (xs @ b # ys) =
     won (xs @ ys) + (if get b ''status'' = JStr STATUS_WON then 1 else 0)"
  by (simp add: won_def eligible_append eligible_Cons STATUS_distinct)

lemma total_insert:
  "total (calcStats E (xs @ b # ys) r) =
     total (calcStats E (xs @ ys) r) + (if get b ''status'' = JStr STATUS_PENDING then 0 else 1)"
  by (simp add: calcStats_def Let_def eligible_append eligible_Cons)

text \<open>
  Claim C10. A bet whose status is neither LOST nor PENDING (the word for WON, any other
  string, or no string at all) takes the last branch of the normalizer: the result is
  \<open>win - stake\<close>, the two fields read through \<^verbatim>\<open>Number(x) || 0\<close>, so a field that is not a
  number counts as \<open>0\<close>. The aggregator counts the bet as eligible: wherever it stands in
  the list it adds one to \<open>total\<close>, the denominator of \<open>winRate\<close>. It adds one to \<open>won\<close>,
  the numerator, only when its status is the word for WON; with any other status it adds
  nothing there.
\<close>

theorem unrecognized_status_is_eligible:
  assumes "get b ''status'' \<noteq> JStr STATUS_LOST" and "get b ''status'' \<noteq> JStr STATUS_PENDING"
  shows "normalizedWinValue E b
           = jsub (numOr0 E (get b ''win_value'')) (numOr0 E (get b ''stake_value''))
       \<and> (ToNumber E (get b ''win_value'') = NaN \<longrightarrow> numOr0 E (get b ''win_value'') = Fin 0)
       \<and> (ToNumber E (get b ''stake_value'') = NaN \<longrightarrow> numOr0 E (get b ''stake_value'') = Fin 0)
       \<and> eligible (xs @ b # ys) = eligible xs @ b # eligible ys
       \<and> total (calcStats E (xs @ b # ys) r) = total (calcStats E (xs @ ys) r) + 1
       \<and> (get b ''status'' \<noteq> JStr STATUS_WON \<longrightarrow> won (xs @ b # ys) = won (xs @ ys))
       \<and> (get b ''status'' = JStr STATUS_WON \<longrightarrow> won (xs @ b # ys) = won (xs @ ys) + 1)"
proof -
  have n: "normalizedWinValue E b
           = jsub (numOr0 E (get b ''win_value'')) (numOr0 E (get b ''stake_value''))"
    using assms by (simp add: normalizedWinValue_def Let_def)
  have z: "\<And>v. ToNumber E v = NaN \<longrightarrow> numOr0 E v = Fin 0"
    by (simp add: numOr0_def num_or_def truthy_num_def)
  have e: "eligible (xs @ b # ys) = eligible xs @ b # eligible ys"
    using assms by (simp add: eligible_append eligible_Cons)
  have t: "total (calcStats E (xs @ b # ys) r) = total (calcStats E (xs @ ys) r) + 1"
    using assms by (simp add: total_insert)
  have w: "get b ''status'' \<noteq> JStr STATUS_WON \<longrightarrow> won (xs @ b # ys) = won (xs @ ys)"
    by (simp add: won_insert)
  have w': "get b ''status'' = JStr STATUS_WON \<longrightarrow> won (xs @ b # ys) = won (xs @ ys) + 1"
    by (simp add: won_insert)
  show ?thesis
    using n z [of "get b ''win_value''"] z [of "get b ''stake_value''"] e t w w'
    by - (intro conjI; assumption)
qed

text \<open>A bet with the status \<^verbatim>\<open>"void"\<close>, stake 10 and payout 4, next to a won bet: the result
  is \<open>-6\<close>, two bets are eligible and one of them is won, so \<open>winRate\<close> is 50.\<close>

theorem unrecognized_status_is_eligible_witness:
  "normalizedWinValue sample_builtins odd_status_bet = Fin (- 6)
   \<and> eligible ([won_bet] @ odd_status_bet # []) = [won_bet, odd_status_bet]
   \<and> total (calcStats sample_builtins ([won_bet] @ odd_status_bet # []) (JNum (Fin 80))) = 2
   \<and> won ([won_bet] @ odd_status_bet # []) = 1
   \<and> winRate (calcStats sample_builtins ([won_bet] @ odd_status_bet # []) (JNum (Fin 80))) = Fin 50"
proof -
  have s1: "get odd_status_bet ''status'' \<noteq> JStr STATUS_LOST"
    by (simp add: sample_status void_not_status)
  have s2: "get odd_status_bet ''status'' \<noteq> JStr STATUS_PENDING"
    by (simp add: sample_status void_not_status)
  have s3: "get odd_status_bet ''status'' \<noteq> JStr STATUS_WON"
    by (simp add: sample_status void_not_status)
  note th = unrecognized_status_is_eligible [OF s1 s2, of sample_builtins "[won_bet]" "[]"
      "JNum (Fin 80)"]
  have w0: "won [won_bet] = 1"
    by (simp add: won_def eligible_def is_pending_iff sample_status STATUS_distinct)
  have e0: "eligible [won_bet] = [won_bet]"
    by (simp add: eligible_def is_pending_iff sample_status STATUS_distinct)
  have t0: "total (calcStats sample_builtins [won_bet] (JNum (Fin 80))) = 1"
    by (simp add: calcStats_def Let_def e0)
  have a: "normalizedWinValue sample_builtins odd_status_bet = Fin (- 6)"
    using th [THEN conjunct1] by (simp add: odd_status_bet_def get_def numOr0_Fin jsub_def)
  have n0: "eligible [] = []"
    by (simp add: eligible_def)
  have b: "eligible ([won_bet] @ odd_status_bet # []) = [won_bet, odd_status_bet]"
    using th [THEN conjunct2, THEN conjunct2, THEN conjunct2, THEN conjunct1]
    by (simp add: e0 n0)
  have c: "total (calcStats sample_builtins ([won_bet] @ odd_status_bet # []) (JNum (Fin 80))) = 2"
    using th [THEN conjunct2, THEN conjunct2, THEN conjunct2, THEN conjunct2, THEN conjunct1] t0
    by simp
  have d: "won ([won_bet] @ odd_status_bet # []) = 1"
    using th [THEN conjunct2, THEN conjunct2, THEN conjunct2, THEN conjunct2, THEN conjunct2,
        THEN conjunct1] s3 w0
    by simp
  have r: "winRate (calcStats sample_builtins ([won_bet] @ odd_status_bet # []) (JNum (Fin 80)))
      = Fin 50"
  proof -
    have fl: "\<lfloor>(101 :: rat) / 2\<rfloor> = 50"
      by (rule floor_unique) simp_all
    show ?thesis
      using b d by (simp add: calcStats_def Let_def Math_round_def fl)
  qed
  show ?thesis
    using a b c d r by simp
qed

section \<open>Streak detector\<close>

text \<open>The three labels of a streak: none, wins, losses (Russian words, as UTF-8 bytes).\<close>

definition KIND_NONE :: string where
  "KIND_NONE = [CHR 0xD0, CHR 0xBD, CHR 0xD0, CHR 0xB5, CHR 0xD1, CHR 0x82]"

definition KIND_WINS :: string where
  "KIND_WINS = [CHR 0xD0, CHR 0xBF, CHR 0xD0, CHR 0xBE, CHR 0xD0, CHR 0xB1, CHR 0xD0, CHR 0xB5,
     CHR 0xD0, CHR 0xB4]"

definition KIND_LOSSES :: string where
  "KIND_LOSSES = [CHR 0xD0, CHR 0xBF, CHR 0xD0, CHR 0xBE, CHR 0xD1, CHR 0x80, CHR 0xD0, CHR 0xB0,
     CHR 0xD0, CHR 0xB6, CHR 0xD0, CHR 0xB5, CHR 0xD0, CHR 0xBD, CHR 0xD0, CHR 0xB8, CHR 0xD0,
     CHR 0xB9]"

record streak =
  kind :: string
  count :: nat

text \<open>\<^verbatim>\<open>Array.prototype.findIndex\<close>; \<open>None\<close> stands for \<open>-1\<close>.\<close>

fun findIndex :: "('a \<Rightarrow> bool) \<Rightarrow> 'a list \<Rightarrow> nat option" where
  "findIndex P [] = None"
| "findIndex P (x # xs) = (if P x then Some 0 else map_option Suc (findIndex P xs))"

text \<open>The body of the \<^verbatim>\<open>for\<close> loop, run over the entries from \<open>firstIdx\<close> on:
  \<^verbatim>\<open>continue\<close> on a pending entry, \<^verbatim>\<open>break\<close> on one that differs from the target.\<close>

fun streak_loop :: "jsval \<Rightarrow> obj list \<Rightarrow> nat \<Rightarrow> nat" where
  "streak_loop target [] n = n"
| "streak_loop target (b # bs) n =
     (if strict_eq (get b ''status'') (JStr STATUS_PENDING) then streak_loop target bs n
      else if \<not> strict_eq (get b ''status'') target then n
      else streak_loop target bs (n + 1))"

text \<open>\<^verbatim>\<open>
function calcStreak(list){
  if (!list.length) return { kind: NONE, count: 0 }
  const firstIdx = list.findIndex(b => b.status !== STATUS.PENDING)
  if (firstIdx === -1) return { kind: NONE, count: 0 }
  const target = list[firstIdx].status
  let count = 0
  for (let i = firstIdx; i < list.length; i++){
    const b = list[i]
    if (b.status === STATUS.PENDING) continue
    if (b.status !== target) break
    count++
  }
  return { kind: target===STATUS.WON? WINS : LOSSES, count }
}\<close>\<close>

definition calcStreak :: "obj list \<Rightarrow> streak" where
  "calcStreak list =
     (if length list = 0 then \<lparr> kind = KIND_NONE, count = 0 \<rparr>
      else case findIndex (\<lambda>b. \<not> strict_eq (get b ''status'') (JStr STATUS_PENDING)) list of
        None \<Rightarrow> \<lparr> kind = KIND_NONE, count = 0 \<rparr>
      | Some firstIdx \<Rightarrow>
          (let target = get (list ! firstIdx) ''status''
           in \<lparr> kind = (if strict_eq target (JStr STATUS_WON) then KIND_WINS else KIND_LOSSES),
                count = streak_loop target (drop firstIdx list) 0 \<rparr>))"

text \<open>The older copy of the component runs the same scan over the first fifteen entries
  (\<^verbatim>\<open>const slice = all.slice(0, 15)\<close>) and has no test for the empty list.\<close>

definition calcStreak_legacy :: "obj list \<Rightarrow> streak" where
  "calcStreak_legacy all =
     (let slice = take 15 all
      in case findIndex (\<lambda>b. \<not> strict_eq (get b ''status'') (JStr STATUS_PENDING)) slice of
        None \<Rightarrow> \<lparr> kind = KIND_NONE, count = 0 \<rparr>
      | Some firstIdx \<Rightarrow>
          (let target = get (slice ! firstIdx) ''status''
           in \<lparr> kind = (if strict_eq target (JStr STATUS_WON) then KIND_WINS else KIND_LOSSES),
                count = streak_loop target (drop firstIdx slice) 0 \<rparr>))"

text \<open>The streak as the specification words it: drop the pending entries; with none left
  there is no streak; otherwise the target is the status of the first entry left, and the
  length is that of the longest run from the front of entries whose status matches it.\<close>

definition currentStreak :: "obj list \<Rightarrow> streak" where
  "currentStreak list =
     (case decided list of
        [] \<Rightarrow> \<lparr> kind = KIND_NONE, count = 0 \<rparr>
      | t # _ \<Rightarrow>
          \<lparr> kind = (if get t ''status'' = JStr STATUS_WON then KIND_WINS else KIND_LOSSES),
            count = length (takeWhile (\<lambda>b. strict_eq (get b ''status'') (get t ''status''))
                      (decided list)) \<rparr>)"

text \<open>Five bets with the statuses PENDING, WON, WON, LOST, WON.\<close>

definition status_only :: "string \<Rightarrow> obj" where
  "status_only s = [''status'' \<mapsto> JStr s]"

definition streak_example :: "obj list" where
  "streak_example = map status_only
     [STATUS_PENDING, STATUS_WON, STATUS_WON, STATUS_LOST, STATUS_WON]"

lemma streak_loop_decided:
  "streak_loop target bs n
     = n + length (takeWhile (\<lambda>b. strict_eq (get b ''status'') target) (decided bs))"
  by (induction bs arbitrary: n) (simp_all add: decided_def)

lemma findIndex_None: "findIndex P xs = None \<longleftrightarrow> filter P xs = []"
  by (induction xs) auto

lemma findIndex_Some:
  "findIndex P xs = Some i \<Longrightarrow>
     i < length xs \<and> P (xs ! i) \<and> filter P (take i xs) = [] \<and> filter P xs = filter P (drop i xs)"
proof (induction xs arbitrary: i)
  case Nil
  then show ?case by simp
next
  case (Cons x xs)
  show ?case
  proof (cases "P x")
    case True
    with Cons.prems show ?thesis by simp
  next
    case False
    with Cons.prems obtain j where j: "findIndex P xs = Some j" "i = Suc j"
      by auto
    from Cons.IH [OF j(1)] False j(2) show ?thesis by simp
  qed
qed

lemma calcStreak_eq_currentStreak: "calcStreak list = currentStreak list"
proof (cases "findIndex (\<lambda>b. get b ''status'' \<noteq> JStr STATUS_PENDING) list")
  case None
  then have "decided list = []"
    by (simp add: findIndex_None decided_def)
  with None show ?thesis
    by (simp add: calcStreak_def currentStreak_def)
next
  case (Some i)
  note f = findIndex_Some [OF Some]
  from f have ne: "list \<noteq> []" by auto
  from f have d: "decided list = decided (drop i list)"
    by (simp add: decided_def)
  from f have "drop i list = list ! i # drop (Suc i) list"
    by (simp add: Cons_nth_drop_Suc)
  with f have hd: "decided (drop i list) = list ! i # decided (drop (Suc i) list)"
    by (simp add: decided_def)
  show ?thesis
    using Some ne d hd
    by (simp add: calcStreak_def currentStreak_def Let_def streak_loop_decided)
qed

lemma calcStreak_legacy_take: "calcStreak_legacy all = calcStreak (take 15 all)"
  by (cases "take 15 all") (simp_all add: calcStreak_legacy_def calcStreak_def Let_def)

text \<open>Fifteen pending bets followed by a won one.\<close>

definition late_win :: "obj list" where
  "late_win = replicate 15 (status_only STATUS_PENDING) @ [status_only STATUS_WON]"

text \<open>
  Claim C5, as the code has it. The repository holds two copies of the streak detector.
  The loop of the current component (\<open>calcStreak\<close>) computes the streak as the
  specification describes it (\<open>currentStreak\<close>) over the whole list: pending entries are
  skipped, the target is the status of the first entry that is not pending, the length
  counts the entries that are not pending and match the target up to the first one that
  differs, and a list with no entry that is not pending gives the length 0. The older copy
  (\<open>calcStreak_legacy\<close>) computes the same streak of the first fifteen entries of the list
  and never looks at a later one; on a list of at most fifteen entries the copies agree.
  For the statuses PENDING, WON, WON, LOST, WON both give the label for wins and the
  length 2.
\<close>

theorem calcStreak_correct:
  "calcStreak list = currentStreak list
   \<and> calcStreak_legacy list = currentStreak (take 15 list)
   \<and> (length list \<le> 15 \<longrightarrow> calcStreak_legacy list = currentStreak list)
   \<and> (decided list = [] \<longrightarrow> count (calcStreak list) = 0 \<and> kind (calcStreak list) = KIND_NONE)
   \<and> (decided (take 15 list) = [] \<longrightarrow>
        count (calcStreak_legacy list) = 0 \<and> kind (calcStreak_legacy list) = KIND_NONE)
   \<and> calcStreak streak_example = \<lparr> kind = KIND_WINS, count = 2 \<rparr>
   \<and> calcStreak_legacy streak_example = \<lparr> kind = KIND_WINS, count = 2 \<rparr>"
proof -
  have a: "calcStreak list = currentStreak list"
    by (rule calcStreak_eq_currentStreak)
  have a': "calcStreak_legacy list = currentStreak (take 15 list)"
    by (simp add: calcStreak_legacy_take calcStreak_eq_currentStreak)
  have a'': "length list \<le> 15 \<longrightarrow> calcStreak_legacy list = currentStreak list"
    by (simp add: a')
  have b: "decided list = [] \<longrightarrow> count (calcStreak list) = 0 \<and> kind (calcStreak list) = KIND_NONE"
    by (simp add: a currentStreak_def)
  have b': "decided (take 15 list) = [] \<longrightarrow>
        count (calcStreak_legacy list) = 0 \<and> kind (calcStreak_legacy list) = KIND_NONE"
    by (simp add: a' currentStreak_def)
  have c: "calcStreak streak_example = \<lparr> kind = KIND_WINS, count = 2 \<rparr>"
    by (simp add: calcStreak_eq_currentStreak currentStreak_def streak_example_def decided_def
        status_only_def get_def STATUS_distinct strict_eq_def)
  have l: "take 15 streak_example = streak_example"
    by (simp add: streak_example_def)
  have c': "calcStreak_legacy streak_example = \<lparr> kind = KIND_WINS, count = 2 \<rparr>"
    using c by (simp add: calcStreak_legacy_take l)
  show ?thesis
    using a a' a'' b b' c c' by - (intro conjI; assumption)
qed

theorem calcStreak_correct_witness:
  "decided [status_only STATUS_PENDING, status_only STATUS_PENDING] = []
   \<and> length [status_only STATUS_PENDING, status_only STATUS_PENDING] \<le> 15
   \<and> count (calcStreak [status_only STATUS_PENDING, status_only STATUS_PENDING]) = 0
   \<and> kind (calcStreak [status_only STATUS_PENDING, status_only STATUS_PENDING]) = KIND_NONE
   \<and> count (calcStreak_legacy [status_only STATUS_PENDING, status_only STATUS_PENDING]) = 0
   \<and> kind (calcStreak_legacy [status_only STATUS_PENDING, status_only STATUS_PENDING]) = KIND_NONE
   \<and> calcStreak streak_example = \<lparr> kind = KIND_WINS, count = 2 \<rparr>
   \<and> calcStreak_legacy streak_example = \<lparr> kind = KIND_WINS, count = 2 \<rparr>"
proof -
  have d: "decided [status_only STATUS_PENDING, status_only STATUS_PENDING] = []"
    by (simp add: decided_def status_only_def get_def)
  note th = calcStreak_correct [of "[status_only STATUS_PENDING, status_only STATUS_PENDING]",
      THEN conjunct2, THEN conjunct2, THEN conjunct2]
  show ?thesis
    using th d by simp
qed

text \<open>The claim as stated fails on the older copy. Behind fifteen pending entries stands
  a won bet: it is the first entry that is not pending, so the streak is one win, which is
  what the current component returns; the older copy scans the fifteen pending entries
  only and reports no streak.\<close>

theorem calcStreak_legacy_counterexample:
  "currentStreak late_win = \<lparr> kind = KIND_WINS, count = 1 \<rparr>
   \<and> calcStreak late_win = \<lparr> kind = KIND_WINS, count = 1 \<rparr>
   \<and> calcStreak_legacy late_win = \<lparr> kind = KIND_NONE, count = 0 \<rparr>
   \<and> calcStreak_legacy late_win \<noteq> currentStreak late_win"
proof -
  have p: "get (status_only STATUS_PENDING) ''status'' = JStr STATUS_PENDING"
    "get (status_only STATUS_WON) ''status'' = JStr STATUS_WON"
    by (simp_all add: status_only_def get_def)
  have d: "decided late_win = [status_only STATUS_WON]"
    by (simp add: late_win_def decided_def p STATUS_distinct)
  have t: "take 15 late_win = replicate 15 (status_only STATUS_PENDING)"
    by (simp add: late_win_def)
  have d': "decided (take 15 late_win) = []"
    by (simp add: t decided_def p)
  have a: "currentStreak late_win = \<lparr> kind = KIND_WINS, count = 1 \<rparr>"
    by (simp add: currentStreak_def d p strict_eq_def)
  have b: "calcStreak_legacy late_win = \<lparr> kind = KIND_NONE, count = 0 \<rparr>"
    by (simp add: calcStreak_legacy_take calcStreak_eq_currentStreak currentStreak_def d')
  have n: "KIND_NONE \<noteq> KIND_WINS"
    by (simp add: KIND_NONE_def KIND_WINS_def)
  show ?thesis
    using a b n by (simp add: calcStreak_eq_currentStreak)
qed

section \<open>Exchange rate\<close>

text \<open>What a \<^verbatim>\<open>fetch\<close> of a JSON resource comes to: the request or the parsing of the body
  throws, the response is not \<open>ok\<close>, or the body parses to a JSON object or to another
  JSON value (\<open>null\<close>, a primitive or an array, none of which has the property read).\<close>

datatype json_body = BodyObj obj | BodyOther

datatype fetched = Threw | NotOk | Ok json_body

text \<open>\<^verbatim>\<open>j?.rubPerUsdt\<close>, \<^verbatim>\<open>j.updatedAt\<close>: reading a property of a parsed body.\<close>

definition body_get :: "json_body \<Rightarrow> string \<Rightarrow> jsval" where
  "body_get j k = (case j of BodyObj ob \<Rightarrow> get ob k | BodyOther \<Rightarrow> JUndefined)"

text \<open>\<^verbatim>\<open>
async function fetchRate(){
  try{
    const r = await fetch('/api/rate')
    if(!r.ok) return DEFAULT_RUB_RATE
    const j = await r.json()
    const val = Number(j?.rubPerUsdt)
    return Number.isFinite(val) && val>0 ? val : DEFAULT_RUB_RATE
  }catch{ return DEFAULT_RUB_RATE }
}\<close>\<close>

definition fetchRate :: "js_builtins \<Rightarrow> fetched \<Rightarrow> jsnum" where
  "fetchRate E r =
     (case r of
        Threw \<Rightarrow> DEFAULT_RUB_RATE
      | NotOk \<Rightarrow> DEFAULT_RUB_RATE
      | Ok j \<Rightarrow>
          (let val = ToNumber E (body_get j ''rubPerUsdt'')
           in if isFinite val \<and> jlt (Fin 0) val then val else DEFAULT_RUB_RATE))"

text \<open>A rate is valid when it is a finite positive number.\<close>

definition valid_rate :: "jsnum \<Rightarrow> bool" where
  "valid_rate v = (isFinite v \<and> jlt (Fin 0) v)"

text \<open>The rate a response supplies: \<open>NaN\<close> when it supplies none.\<close>

definition supplied_rate :: "js_builtins \<Rightarrow> fetched \<Rightarrow> jsnum" where
  "supplied_rate E r = (case r of Ok j \<Rightarrow> ToNumber E (body_get j ''rubPerUsdt'') | _ \<Rightarrow> NaN)"

definition rub_bet :: obj where
  "rub_bet = [''stake_currency'' \<mapsto> JStr ''RUB'']"

lemma valid_rate_truthy: "valid_rate v \<Longrightarrow> truthy_num v"
  by (cases v) (auto simp: valid_rate_def truthy_num_def isFinite_def)

lemma valid_DEFAULT_RUB_RATE: "valid_rate DEFAULT_RUB_RATE"
  by (simp add: valid_rate_def DEFAULT_RUB_RATE_def isFinite_def)

lemma fetchRate_supplied:
  "fetchRate E r = (if valid_rate (supplied_rate E r) then supplied_rate E r else DEFAULT_RUB_RATE)"
  by (cases r) (simp_all add: fetchRate_def supplied_rate_def valid_rate_def Let_def isFinite_def)

lemma fetchRate_valid: "valid_rate (fetchRate E r)"
  by (simp add: fetchRate_supplied valid_DEFAULT_RUB_RATE)

lemma toUSDT_RUB:
  "betUnit b = JStr ''RUB'' \<Longrightarrow>
     toUSDT E amount b rate = jdiv amount (num_or (ToNumber E rate) DEFAULT_RUB_RATE)"
  by (simp add: toUSDT_def Let_def)

lemma toUSDT_other: "betUnit b \<noteq> JStr ''RUB'' \<Longrightarrow> toUSDT E amount b rate = amount"
  by (simp add: toUSDT_def Let_def)

lemma divisor_safe:
  "num_or (ToNumber E rate) DEFAULT_RUB_RATE \<noteq> Fin 0
   \<and> num_or (ToNumber E rate) DEFAULT_RUB_RATE \<noteq> NaN"
  by (simp add: num_or_def truthy_num_def DEFAULT_RUB_RATE_def)

text \<open>
  Claim C7, as the code has it. For a bet in any unit other than RUB the amount passes
  through, whatever the rate. For a bet in RUB, \<open>toUSDT\<close> divides by \<^verbatim>\<open>Number(rubRate)\<close>
  when that is neither zero nor \<open>NaN\<close>, and by the default 80.78 otherwise, so the divisor
  is never zero and never \<open>NaN\<close>; it makes no other test of the rate. The rate the client
  holds comes from \<open>fetchRate\<close>, which returns the supplied rate when that is a finite
  positive number and the default in every other case; on that path the conversion
  divides by the default exactly when the supplied rate is not a finite positive number.
\<close>

theorem toUSDT_rate_guard:
  "(betUnit b \<noteq> JStr ''RUB'' \<longrightarrow> toUSDT E amount b rate = amount)
   \<and> (betUnit b = JStr ''RUB'' \<longrightarrow>
        toUSDT E amount b rate
          = jdiv amount (if truthy_num (ToNumber E rate) then ToNumber E rate else DEFAULT_RUB_RATE)
        \<and> (if truthy_num (ToNumber E rate) then ToNumber E rate else DEFAULT_RUB_RATE) \<noteq> Fin 0
        \<and> (if truthy_num (ToNumber E rate) then ToNumber E rate else DEFAULT_RUB_RATE) \<noteq> NaN)
   \<and> valid_rate (fetchRate E r)
   \<and> (\<not> valid_rate (supplied_rate E r) \<longrightarrow> fetchRate E r = DEFAULT_RUB_RATE)
   \<and> (valid_rate (supplied_rate E r) \<longrightarrow> fetchRate E r = supplied_rate E r)
   \<and> (betUnit b = JStr ''RUB'' \<longrightarrow>
        toUSDT E amount b (JNum (fetchRate E r))
          = jdiv amount (if valid_rate (supplied_rate E r) then supplied_rate E r
                         else DEFAULT_RUB_RATE))"
proof -
  have a: "betUnit b \<noteq> JStr ''RUB'' \<longrightarrow> toUSDT E amount b rate = amount"
    by (simp add: toUSDT_other)
  have b: "betUnit b = JStr ''RUB'' \<longrightarrow>
        toUSDT E amount b rate
          = jdiv amount (if truthy_num (ToNumber E rate) then ToNumber E rate else DEFAULT_RUB_RATE)
        \<and> (if truthy_num (ToNumber E rate) then ToNumber E rate else DEFAULT_RUB_RATE) \<noteq> Fin 0
        \<and> (if truthy_num (ToNumber E rate) then ToNumber E rate else DEFAULT_RUB_RATE) \<noteq> NaN"
    using divisor_safe [of E rate] by (simp add: toUSDT_RUB num_or_def)
  have c: "valid_rate (fetchRate E r)"
    by (rule fetchRate_valid)
  have d: "\<not> valid_rate (supplied_rate E r) \<longrightarrow> fetchRate E r = DEFAULT_RUB_RATE"
    by (simp add: fetchRate_supplied)
  have e: "valid_rate (supplied_rate E r) \<longrightarrow> fetchRate E r = supplied_rate E r"
    by (simp add: fetchRate_supplied)
  have t: "truthy_num (fetchRate E r)"
    using c by (rule valid_rate_truthy)
  have f: "betUnit b = JStr ''RUB'' \<longrightarrow>
        toUSDT E amount b (JNum (fetchRate E r))
          = jdiv amount (if valid_rate (supplied_rate E r) then supplied_rate E r
                         else DEFAULT_RUB_RATE)"
    using t by (simp add: toUSDT_RUB num_or_def ToNumber_def) (simp add: fetchRate_supplied)
  show ?thesis
    using a b c d e f by - (intro conjI; assumption)
qed

text \<open>A bet in RUB, the amount 8078: with the rate 0 and with a response that carries the
  rate \<open>-5\<close> the conversion divides by the default and gives 100; a bet with no currency
  field counts as USDT and keeps its amount.\<close>

theorem toUSDT_rate_guard_witness:
  "toUSDT sample_builtins (Fin 8078) rub_bet (JNum (Fin 0)) = Fin 100
   \<and> toUSDT sample_builtins (Fin 8078) Map.empty (JNum (Fin 0)) = Fin 8078
   \<and> fetchRate sample_builtins (Ok (BodyObj [''rubPerUsdt'' \<mapsto> JNum (Fin (- 5))]))
       = DEFAULT_RUB_RATE
   \<and> toUSDT sample_builtins (Fin 8078) rub_bet
       (JNum (fetchRate sample_builtins (Ok (BodyObj [''rubPerUsdt'' \<mapsto> JNum (Fin (- 5))]))))
       = Fin 100"
proof -
  have u: "betUnit rub_bet = JStr ''RUB''"
    by (simp add: betUnit_def rub_bet_def get_def js_or_def truthy_def)
  have u': "betUnit Map.empty \<noteq> JStr ''RUB''"
    by (simp add: betUnit_def get_def js_or_def truthy_def)
  have s: "supplied_rate sample_builtins (Ok (BodyObj [''rubPerUsdt'' \<mapsto> JNum (Fin (- 5))]))
      = Fin (- 5)"
    by (simp add: supplied_rate_def body_get_def get_def ToNumber_def)
  have nv: "\<not> valid_rate (Fin (- 5))"
    by (simp add: valid_rate_def)
  have dv: "jdiv (Fin 8078) DEFAULT_RUB_RATE = Fin 100"
    by (simp add: DEFAULT_RUB_RATE_def)
  note th1 = toUSDT_rate_guard [of rub_bet sample_builtins "Fin 8078" "JNum (Fin 0)"
      "Ok (BodyObj [''rubPerUsdt'' \<mapsto> JNum (Fin (- 5))])"]
  note th2 = toUSDT_rate_guard [of Map.empty sample_builtins "Fin 8078" "JNum (Fin 0)" Threw]
  have a: "toUSDT sample_builtins (Fin 8078) rub_bet (JNum (Fin 0)) = Fin 100"
    using th1 [THEN conjunct2, THEN conjunct1] u dv
    by (simp add: ToNumber_def truthy_num_def)
  have b: "toUSDT sample_builtins (Fin 8078) Map.empty (JNum (Fin 0)) = Fin 8078"
    using th2 [THEN conjunct1] u' by simp
  have c: "fetchRate sample_builtins (Ok (BodyObj [''rubPerUsdt'' \<mapsto> JNum (Fin (- 5))]))
       = DEFAULT_RUB_RATE"
    using th1 [THEN conjunct2, THEN conjunct2, THEN conjunct2, THEN conjunct1] s nv by simp
  have d: "toUSDT sample_builtins (Fin 8078) rub_bet
       (JNum (fetchRate sample_builtins (Ok (BodyObj [''rubPerUsdt'' \<mapsto> JNum (Fin (- 5))]))))
       = Fin 100"
    using th1 [THEN conjunct2, THEN conjunct2, THEN conjunct2, THEN conjunct2, THEN conjunct2]
      u s nv dv by simp
  show ?thesis
    using a b c d by simp
qed

text \<open>Handed to \<open>toUSDT\<close> itself, the rate \<open>-5\<close> is not replaced: it is not a finite positive
  number, and 100 in RUB converts to \<open>-20\<close>, not to 100 divided by the default.\<close>

theorem toUSDT_negative_rate_counterexample:
  "betUnit rub_bet = JStr ''RUB''
   \<and> \<not> valid_rate (ToNumber sample_builtins (JNum (Fin (- 5))))
   \<and> toUSDT sample_builtins (Fin 100) rub_bet (JNum (Fin (- 5))) = Fin (- 20)
   \<and> toUSDT sample_builtins (Fin 100) rub_bet (JNum (Fin (- 5)))
       \<noteq> jdiv (Fin 100) DEFAULT_RUB_RATE"
  by (simp add: betUnit_def rub_bet_def get_def js_or_def truthy_def valid_rate_def
      ToNumber_def toUSDT_def num_or_def truthy_num_def DEFAULT_RUB_RATE_def)

section \<open>Live state synchronizer\<close>

text \<open>What a viewer holds: the bet list (\<^verbatim>\<open>bets\<close>), the marker of the last update
  (\<^verbatim>\<open>lastEventAt\<close>) and the item \<^verbatim>\<open>betoff_last_update\<close> of the local storage.\<close>

record client =
  held_bets :: "obj list"
  lastEventAt :: jsnum
  stored_last_update :: "string option"

text \<open>The payload of a \<^verbatim>\<open>bets:update\<close> event: an array of records; an object, of which the
  handler reads \<^verbatim>\<open>items\<close> (\<open>None\<close> when absent or falsy) and \<^verbatim>\<open>updatedAt\<close>; or anything
  else (\<open>null\<close>, \<open>undefined\<close> or a primitive).\<close>

datatype payload = PArray "obj list" | PObject "obj list option" jsval | POther

text \<open>\<^verbatim>\<open>
async function fetchMeta(){
  try{
    const r = await fetch('/api/meta')
    if(!r.ok) return 0
    const j = await r.json()
    return Number(j.updatedAt)||0
  }catch{ return 0 }
}\<close>\<close>

definition fetchMeta :: "js_builtins \<Rightarrow> fetched \<Rightarrow> jsnum" where
  "fetchMeta E r =
     (case r of
        Threw \<Rightarrow> Fin 0
      | NotOk \<Rightarrow> Fin 0
      | Ok j \<Rightarrow> numOr0 E (body_get j ''updatedAt''))"

text \<open>\<^verbatim>\<open>setLastEventAt(t); try{ localStorage.setItem('betoff_last_update', String(t)) }catch{}\<close>:
  \<open>writable\<close> tells whether the storage takes the item.\<close>

definition mark :: "js_builtins \<Rightarrow> bool \<Rightarrow> jsnum \<Rightarrow> client \<Rightarrow> client" where
  "mark E writable t st =
     st\<lparr> lastEventAt := t,
         stored_last_update :=
           (if writable then Some (NumberToString E t) else stored_last_update st) \<rparr>"

text \<open>\<^verbatim>\<open>
socket.on('bets:update', (payload)=>{
  if(Array.isArray(payload)){
    setBets(payload)
    fetchMeta().then(ts=> { if(ts) setLastEventAt(ts) })
  }else if(payload && typeof payload==='object'){
    setBets(payload.items || [])
    const ts = Number(payload.updatedAt)||Date.now()
    setLastEventAt(ts)
    try{ localStorage.setItem('betoff_last_update', String(ts)) }catch{}
    return
  }
  const now = Date.now()
  setLastEventAt(now)
  try{ localStorage.setItem('betoff_last_update', String(now)) }catch{}
})\<close>
  The handler takes the reading of the clock and returns the new state together with the
  flag that a \<open>fetchMeta\<close> was started; \<open>on_meta\<close> is the callback of that request.\<close>

definition on_bets_update ::
    "js_builtins \<Rightarrow> int \<Rightarrow> bool \<Rightarrow> payload \<Rightarrow> client \<Rightarrow> client \<times> bool" where
  "on_bets_update E clock writable p st =
     (case p of
        PArray xs \<Rightarrow> (mark E writable (Fin (of_int clock)) (st\<lparr> held_bets := xs \<rparr>), True)
      | PObject items upd \<Rightarrow>
          (let ts = num_or (ToNumber E upd) (Fin (of_int clock))
           in (mark E writable ts
                 (st\<lparr> held_bets := (case items of None \<Rightarrow> [] | Some xs \<Rightarrow> xs) \<rparr>), False))
      | POther \<Rightarrow> (mark E writable (Fin (of_int clock)) st, False))"

definition on_meta :: "jsnum \<Rightarrow> client \<Rightarrow> client" where
  "on_meta ts st = (if truthy_num ts then st\<lparr> lastEventAt := ts \<rparr> else st)"

text \<open>One notification applied to the end: the handler, then the callback of the request
  it started, with the response \<open>meta\<close> of the server.\<close>

definition apply_update ::
    "js_builtins \<Rightarrow> int \<Rightarrow> bool \<Rightarrow> fetched \<Rightarrow> payload \<Rightarrow> client \<Rightarrow> client" where
  "apply_update E clock writable meta p st =
     (case on_bets_update E clock writable p st of
        (st', started) \<Rightarrow> if started then on_meta (fetchMeta E meta) st' else st')"

definition fresh_client :: client where
  "fresh_client = \<lparr> held_bets = [], lastEventAt = Fin 0, stored_last_update = None \<rparr>"

lemma held_bets_mark [simp]: "held_bets (mark E w t st) = held_bets st"
  by (simp add: mark_def)

lemma held_bets_on_meta [simp]: "held_bets (on_meta ts st) = held_bets st"
  by (simp add: on_meta_def)

text \<open>The three parts of the state after one notification. \<open>written\<close> is the number the
  handler hands to the storage.\<close>

definition written :: "js_builtins \<Rightarrow> int \<Rightarrow> payload \<Rightarrow> jsnum" where
  "written E clock p =
     (case p of
        PObject items upd \<Rightarrow> num_or (ToNumber E upd) (Fin (of_int clock))
      | _ \<Rightarrow> Fin (of_int clock))"

lemma held_bets_apply_update:
  "held_bets (apply_update E clock w meta p st) =
     (case p of PArray xs \<Rightarrow> xs
      | PObject items upd \<Rightarrow> (case items of None \<Rightarrow> [] | Some xs \<Rightarrow> xs)
      | POther \<Rightarrow> held_bets st)"
  by (cases p) (simp_all add: apply_update_def on_bets_update_def Let_def)

lemma lastEventAt_apply_update:
  "lastEventAt (apply_update E clock w meta p st) =
     (case p of
        PArray xs \<Rightarrow>
          if truthy_num (fetchMeta E meta) then fetchMeta E meta else Fin (of_int clock)
      | PObject items upd \<Rightarrow>
          if truthy_num (ToNumber E upd) then ToNumber E upd else Fin (of_int clock)
      | POther \<Rightarrow> Fin (of_int clock))"
  by (cases p)
    (simp_all add: apply_update_def on_bets_update_def Let_def mark_def on_meta_def num_or_def)

lemma stored_apply_update:
  "stored_last_update (apply_update E clock w meta p st) =
     (if w then Some (NumberToString E (written E clock p)) else stored_last_update st)"
  by (cases p)
    (simp_all add: apply_update_def on_bets_update_def Let_def mark_def on_meta_def written_def)

lemma client_eqI:
  fixes s t :: client
  assumes "held_bets s = held_bets t" "lastEventAt s = lastEventAt t"
    "stored_last_update s = stored_last_update t"
  shows "s = t"
  using assms by (cases s, cases t) simp

lemma apply_update_same_reading:
  assumes "w2 \<longrightarrow> w1"
  shows "apply_update E clock w2 meta p (apply_update E clock w1 meta p st)
         = apply_update E clock w1 meta p st"
proof (rule client_eqI)
  show "held_bets (apply_update E clock w2 meta p (apply_update E clock w1 meta p st))
      = held_bets (apply_update E clock w1 meta p st)"
    by (cases p) (simp_all add: held_bets_apply_update)
  show "lastEventAt (apply_update E clock w2 meta p (apply_update E clock w1 meta p st))
      = lastEventAt (apply_update E clock w1 meta p st)"
    by (simp add: lastEventAt_apply_update)
  show "stored_last_update (apply_update E clock w2 meta p (apply_update E clock w1 meta p st))
      = stored_last_update (apply_update E clock w1 meta p st)"
    using assms by (simp add: stored_apply_update)
qed

lemma apply_update_stamped:
  assumes "truthy_num (ToNumber E upd)" and "w2 \<longrightarrow> w1"
  shows "apply_update E clock2 w2 meta2 (PObject items upd)
           (apply_update E clock1 w1 meta1 (PObject items upd) st)
         = apply_update E clock1 w1 meta1 (PObject items upd) st"
proof (rule client_eqI)
  show "held_bets (apply_update E clock2 w2 meta2 (PObject items upd)
           (apply_update E clock1 w1 meta1 (PObject items upd) st))
      = held_bets (apply_update E clock1 w1 meta1 (PObject items upd) st)"
    by (simp add: held_bets_apply_update)
  show "lastEventAt (apply_update E clock2 w2 meta2 (PObject items upd)
           (apply_update E clock1 w1 meta1 (PObject items upd) st))
      = lastEventAt (apply_update E clock1 w1 meta1 (PObject items upd) st)"
    using assms(1) by (simp add: lastEventAt_apply_update)
  show "stored_last_update (apply_update E clock2 w2 meta2 (PObject items upd)
           (apply_update E clock1 w1 meta1 (PObject items upd) st))
      = stored_last_update (apply_update E clock1 w1 meta1 (PObject items upd) st)"
    using assms by (simp add: stored_apply_update written_def num_or_def)
qed

text \<open>
  Claim C6, as the code has it. \<open>clock\<close> is the reading of the client's clock at an
  application, \<open>meta\<close> the server's answer to the request for its marker, \<open>w\<close> whether the
  local storage takes the item.
  \<^item> Applying a notification a second time never changes the bet list the first
    application left, whatever the payload, the clocks, the answers and the storage.
  \<^item> After one application the marker is: for a bare array, the server's marker when the
    request returns one that is not zero, else the clock; for an object, the number in
    \<open>updatedAt\<close> when that is a number other than zero, else the clock; for any other
    payload, the clock. The stored item is the clock, or for an object with such an
    \<open>updatedAt\<close> that number, when the storage takes it, and is left as it was otherwise.
  \<^item> For an object whose \<open>updatedAt\<close> is a number other than zero, the second application
    leaves the marker of the first whatever the clocks and answers, and the whole state
    unless the storage refused the item the first time and takes it the second.
  \<^item> For every payload, a second application that reads the same clock and gets the same
    answer leaves the marker of the first, and the whole state unless the storage refused
    the item the first time and takes it the second.
\<close>

theorem apply_update_idempotent:
  "held_bets (apply_update E clock2 w2 meta2 p (apply_update E clock1 w1 meta1 p st))
     = held_bets (apply_update E clock1 w1 meta1 p st)
   \<and> lastEventAt (apply_update E clock1 w1 meta1 p st) =
       (case p of
          PArray xs \<Rightarrow>
            if truthy_num (fetchMeta E meta1) then fetchMeta E meta1 else Fin (of_int clock1)
        | PObject its u \<Rightarrow>
            if truthy_num (ToNumber E u) then ToNumber E u else Fin (of_int clock1)
        | POther \<Rightarrow> Fin (of_int clock1))
   \<and> stored_last_update (apply_update E clock1 w1 meta1 p st) =
       (if w1 then Some (NumberToString E (written E clock1 p)) else stored_last_update st)
   \<and> (truthy_num (ToNumber E upd) \<longrightarrow>
        lastEventAt (apply_update E clock2 w2 meta2 (PObject items upd)
            (apply_update E clock1 w1 meta1 (PObject items upd) st))
          = lastEventAt (apply_update E clock1 w1 meta1 (PObject items upd) st)
        \<and> ((w2 \<longrightarrow> w1) \<longrightarrow>
            apply_update E clock2 w2 meta2 (PObject items upd)
                (apply_update E clock1 w1 meta1 (PObject items upd) st)
              = apply_update E clock1 w1 meta1 (PObject items upd) st))
   \<and> lastEventAt (apply_update E clock1 w2 meta1 p (apply_update E clock1 w1 meta1 p st))
       = lastEventAt (apply_update E clock1 w1 meta1 p st)
   \<and> ((w2 \<longrightarrow> w1) \<longrightarrow>
        apply_update E clock1 w2 meta1 p (apply_update E clock1 w1 meta1 p st)
          = apply_update E clock1 w1 meta1 p st)"
proof -
  have a: "held_bets (apply_update E clock2 w2 meta2 p (apply_update E clock1 w1 meta1 p st))
     = held_bets (apply_update E clock1 w1 meta1 p st)"
    by (cases p) (simp_all add: held_bets_apply_update)
  have b: "lastEventAt (apply_update E clock1 w1 meta1 p st) =
       (case p of
          PArray xs \<Rightarrow>
            if truthy_num (fetchMeta E meta1) then fetchMeta E meta1 else Fin (of_int clock1)
        | PObject its u \<Rightarrow>
            if truthy_num (ToNumber E u) then ToNumber E u else Fin (of_int clock1)
        | POther \<Rightarrow> Fin (of_int clock1))"
    by (rule lastEventAt_apply_update)
  have c: "stored_last_update (apply_update E clock1 w1 meta1 p st) =
       (if w1 then Some (NumberToString E (written E clock1 p)) else stored_last_update st)"
    by (rule stored_apply_update)
  have d: "truthy_num (ToNumber E upd) \<longrightarrow>
        lastEventAt (apply_update E clock2 w2 meta2 (PObject items upd)
            (apply_update E clock1 w1 meta1 (PObject items upd) st))
          = lastEventAt (apply_update E clock1 w1 meta1 (PObject items upd) st)
        \<and> ((w2 \<longrightarrow> w1) \<longrightarrow>
            apply_update E clock2 w2 meta2 (PObject items upd)
                (apply_update E clock1 w1 meta1 (PObject items upd) st)
              = apply_update E clock1 w1 meta1 (PObject items upd) st)"
  proof (intro impI conjI)
    assume t: "truthy_num (ToNumber E upd)"
    then show "lastEventAt (apply_update E clock2 w2 meta2 (PObject items upd)
            (apply_update E clock1 w1 meta1 (PObject items upd) st))
          = lastEventAt (apply_update E clock1 w1 meta1 (PObject items upd) st)"
      by (simp add: lastEventAt_apply_update)
    assume "w2 \<longrightarrow> w1"
    with t show "apply_update E clock2 w2 meta2 (PObject items upd)
                (apply_update E clock1 w1 meta1 (PObject items upd) st)
              = apply_update E clock1 w1 meta1 (PObject items upd) st"
      by (rule apply_update_stamped)
  qed
  have e: "lastEventAt (apply_update E clock1 w2 meta1 p (apply_update E clock1 w1 meta1 p st))
       = lastEventAt (apply_update E clock1 w1 meta1 p st)"
    by (simp add: lastEventAt_apply_update)
  have f: "(w2 \<longrightarrow> w1) \<longrightarrow>
        apply_update E clock1 w2 meta1 p (apply_update E clock1 w1 meta1 p st)
          = apply_update E clock1 w1 meta1 p st"
    by (intro impI) (rule apply_update_same_reading)
  show ?thesis
    using a b c d e f by - (intro conjI; assumption)
qed

text \<open>The payload \<^verbatim>\<open>{items: [won_bet], updatedAt: 1700}\<close> applied at the clock readings 1000
  and 2000, the storage taking the item both times: the second application changes
  nothing, the marker is 1700 and the stored item is the string 1700.\<close>

theorem apply_update_idempotent_witness:
  "truthy_num (ToNumber sample_builtins (JNum (Fin 1700)))
   \<and> apply_update sample_builtins 2000 True Threw (PObject (Some [won_bet]) (JNum (Fin 1700)))
       (apply_update sample_builtins 1000 True Threw (PObject (Some [won_bet]) (JNum (Fin 1700)))
          fresh_client)
     = apply_update sample_builtins 1000 True Threw (PObject (Some [won_bet]) (JNum (Fin 1700)))
          fresh_client
   \<and> lastEventAt
       (apply_update sample_builtins 1000 True Threw (PObject (Some [won_bet]) (JNum (Fin 1700)))
          fresh_client) = Fin 1700
   \<and> stored_last_update
       (apply_update sample_builtins 1000 True Threw (PObject (Some [won_bet]) (JNum (Fin 1700)))
          fresh_client) = Some ''1700''
   \<and> held_bets
       (apply_update sample_builtins 1000 True Threw (PObject (Some [won_bet]) (JNum (Fin 1700)))
          fresh_client) = [won_bet]"
proof -
  have n: "ToNumber sample_builtins (JNum (Fin 1700)) = Fin 1700"
    by (simp add: ToNumber_def)
  have t: "truthy_num (ToNumber sample_builtins (JNum (Fin 1700)))"
    by (simp add: n truthy_num_def)
  have s: "NumberToString sample_builtins (Fin 1700) = ''1700''"
    by (simp add: sample_builtins_def) code_simp
  have w: "written sample_builtins 1000 (PObject (Some [won_bet]) (JNum (Fin 1700))) = Fin 1700"
    using t by (simp add: written_def num_or_def n)
  note th = apply_update_idempotent [of sample_builtins 2000 True Threw
      "PObject (Some [won_bet]) (JNum (Fin 1700))" 1000 True Threw fresh_client
      "JNum (Fin 1700)" "Some [won_bet]"]
  have a: "apply_update sample_builtins 2000 True Threw (PObject (Some [won_bet]) (JNum (Fin 1700)))
       (apply_update sample_builtins 1000 True Threw (PObject (Some [won_bet]) (JNum (Fin 1700)))
          fresh_client)
     = apply_update sample_builtins 1000 True Threw (PObject (Some [won_bet]) (JNum (Fin 1700)))
          fresh_client"
    using th [THEN conjunct2, THEN conjunct2, THEN conjunct2, THEN conjunct1] t by simp
  have b: "lastEventAt
       (apply_update sample_builtins 1000 True Threw (PObject (Some [won_bet]) (JNum (Fin 1700)))
          fresh_client) = Fin 1700"
    using th [THEN conjunct2, THEN conjunct1] t n by simp
  have c: "stored_last_update
       (apply_update sample_builtins 1000 True Threw (PObject (Some [won_bet]) (JNum (Fin 1700)))
          fresh_client) = Some ''1700''"
    using th [THEN conjunct2, THEN conjunct2, THEN conjunct1] w s by simp
  have d: "held_bets
       (apply_update sample_builtins 1000 True Threw (PObject (Some [won_bet]) (JNum (Fin 1700)))
          fresh_client) = [won_bet]"
    by (simp add: held_bets_apply_update)
  show ?thesis
    using t a b c d by simp
qed

text \<open>The same payload delivered at the clock readings 1000 and 2000, the request for the
  server's marker failing both times and the storage taking every item. For a bare array
  the marker is 1000 after the first application and 2000 after the second, and the
  stored item changes from the string 1000 to the string 2000. An object without
  \<open>updatedAt\<close> and a payload that is neither an array nor an object do the same.\<close>

theorem apply_update_marker_counterexample:
  "lastEventAt (apply_update sample_builtins 1000 True Threw (PArray [won_bet]) fresh_client)
     = Fin 1000
   \<and> lastEventAt
       (apply_update sample_builtins 2000 True Threw (PArray [won_bet])
          (apply_update sample_builtins 1000 True Threw (PArray [won_bet]) fresh_client))
     = Fin 2000
   \<and> stored_last_update
       (apply_update sample_builtins 1000 True Threw (PArray [won_bet]) fresh_client)
     = Some ''1000''
   \<and> stored_last_update
       (apply_update sample_builtins 2000 True Threw (PArray [won_bet])
          (apply_update sample_builtins 1000 True Threw (PArray [won_bet]) fresh_client))
     = Some ''2000''
   \<and> apply_update sample_builtins 2000 True Threw (PArray [won_bet])
          (apply_update sample_builtins 1000 True Threw (PArray [won_bet]) fresh_client)
     \<noteq> apply_update sample_builtins 1000 True Threw (PArray [won_bet]) fresh_client
   \<and> lastEventAt
       (apply_update sample_builtins 2000 True Threw (PObject (Some [won_bet]) JUndefined)
          (apply_update sample_builtins 1000 True Threw (PObject (Some [won_bet]) JUndefined)
             fresh_client))
     \<noteq> lastEventAt
         (apply_update sample_builtins 1000 True Threw (PObject (Some [won_bet]) JUndefined)
            fresh_client)
   \<and> lastEventAt
       (apply_update sample_builtins 2000 True Threw POther
          (apply_update sample_builtins 1000 True Threw POther fresh_client))
     \<noteq> lastEventAt (apply_update sample_builtins 1000 True Threw POther fresh_client)"
proof -
  have s1: "NumberToString sample_builtins (Fin 1000) = ''1000''"
    by (simp add: sample_builtins_def) code_simp
  have s2: "NumberToString sample_builtins (Fin 2000) = ''2000''"
    by (simp add: sample_builtins_def) code_simp
  have m: "\<not> truthy_num (fetchMeta sample_builtins Threw)"
    by (simp add: fetchMeta_def truthy_num_def)
  have u: "\<not> truthy_num (ToNumber sample_builtins JUndefined)"
    by (simp add: ToNumber_def truthy_num_def)
  have l1: "lastEventAt (apply_update sample_builtins 1000 True Threw (PArray [won_bet]) fresh_client)
     = Fin 1000"
    using m by (simp add: lastEventAt_apply_update)
  have l2: "lastEventAt
       (apply_update sample_builtins 2000 True Threw (PArray [won_bet])
          (apply_update sample_builtins 1000 True Threw (PArray [won_bet]) fresh_client))
     = Fin 2000"
    using m by (simp add: lastEventAt_apply_update)
  have ne: "apply_update sample_builtins 2000 True Threw (PArray [won_bet])
          (apply_update sample_builtins 1000 True Threw (PArray [won_bet]) fresh_client)
     \<noteq> apply_update sample_builtins 1000 True Threw (PArray [won_bet]) fresh_client"
  proof
    assume h: "apply_update sample_builtins 2000 True Threw (PArray [won_bet])
          (apply_update sample_builtins 1000 True Threw (PArray [won_bet]) fresh_client)
       = apply_update sample_builtins 1000 True Threw (PArray [won_bet]) fresh_client"
    have "Fin 2000 = Fin 1000"
      using l1 l2 by (simp only: h)
    then show False
      by simp
  qed
  show ?thesis
    using l1 l2 ne m u
    by (simp add: lastEventAt_apply_update stored_apply_update written_def s1 s2)
qed

section \<open>Calendar dates\<close>

text \<open>
  The \<^verbatim>\<open>Date\<close> object is built into the language. Its arithmetic is modelled after the
  language standard (time values are milliseconds since the epoch, days are counted from
  1 January 1970, months from 0). Local time is UTC plus a fixed offset \<open>tz\<close> in
  milliseconds: changes of the offset (daylight saving time) are not modelled, nor is the
  limit of 8.64e15 milliseconds on a time value, from which the dates below stay far away.
\<close>

definition msPerDay :: int where
  "msPerDay = 86400000"

definition Day :: "int \<Rightarrow> int" where
  "Day t = t div msPerDay"

definition DaysInYear :: "int \<Rightarrow> int" where
  "DaysInYear y =
     (if y mod 4 \<noteq> 0 then 365 else if y mod 100 \<noteq> 0 then 366
      else if y mod 400 \<noteq> 0 then 365 else 366)"

definition DayFromYear :: "int \<Rightarrow> int" where
  "DayFromYear y =
     365 * (y - 1970) + (y - 1969) div 4 - (y - 1901) div 100 + (y - 1601) div 400"

text \<open>From one year to the next the count of days grows by the length of the year.\<close>

lemma div_bounds:
  fixes x n :: int
  assumes "0 < n"
  shows "n * (x div n) \<le> x" and "x < n * (x div n) + n"
proof -
  have "n * (x div n) + x mod n = x"
    by (rule mult_div_mod_eq)
  moreover have "0 \<le> x mod n" "x mod n < n"
    using assms by simp_all
  ultimately show "n * (x div n) \<le> x" and "x < n * (x div n) + n"
    by linarith+
qed

lemma div_step:
  fixes x n :: int
  assumes "0 < n"
  shows "(x + 1) div n = x div n + (if (x + 1) mod n = 0 then 1 else 0)"
proof -
  define q where "q = x div n"
  define r where "r = x mod n"
  have x: "x = q * n + r" and r: "0 \<le> r" "r < n"
    using assms by (simp_all add: q_def r_def)
  show ?thesis
  proof (cases "r + 1 = n")
    case True
    then have "x + 1 = (q + 1) * n"
      using x by (simp add: algebra_simps)
    then show ?thesis
      using assms by (simp add: q_def)
  next
    case False
    with r have r1: "0 \<le> r + 1" "r + 1 < n"
      by simp_all
    have e: "x + 1 = q * n + (r + 1)"
      using x by simp
    have d: "(x + 1) div n = q"
      unfolding e using r1 assms by (simp add: div_pos_pos_trivial)
    have m: "(x + 1) mod n = r + 1"
      unfolding e using r1 assms by (simp add: mod_pos_pos_trivial)
    show ?thesis
      using d m r by (simp add: q_def)
  qed
qed

lemma leap_divides:
  fixes y :: int
  shows "y mod 100 = 0 \<Longrightarrow> y mod 4 = 0" and "y mod 400 = 0 \<Longrightarrow> y mod 100 = 0"
proof -
  assume "y mod 100 = 0"
  then have "100 dvd y"
    by (simp add: dvd_eq_mod_eq_0)
  moreover have "(4::int) dvd 100"
    by simp
  ultimately have "4 dvd y"
    using dvd_trans by blast
  then show "y mod 4 = 0"
    by simp
next
  assume "y mod 400 = 0"
  then have "400 dvd y"
    by (simp add: dvd_eq_mod_eq_0)
  moreover have "(100::int) dvd 400"
    by simp
  ultimately have "100 dvd y"
    using dvd_trans by blast
  then show "y mod 100 = 0"
    by simp
qed

lemma year_steps:
  fixes y :: int
  shows "(y - 1968) div 4 = (y - 1969) div 4 + (if y mod 4 = 0 then 1 else 0)"
    and "(y - 1900) div 100 = (y - 1901) div 100 + (if y mod 100 = 0 then 1 else 0)"
    and "(y - 1600) div 400 = (y - 1601) div 400 + (if y mod 400 = 0 then 1 else 0)"
proof -
  have m4: "(y - 1968) mod 4 = y mod 4"
    using mod_diff_right_eq [of y 1968 4] by simp
  have m100: "(y - 1900) mod 100 = y mod 100"
    using mod_diff_right_eq [of y 1900 100] by simp
  have m400: "(y - 1600) mod 400 = y mod 400"
    using mod_diff_right_eq [of y 1600 400] by simp
  show "(y - 1968) div 4 = (y - 1969) div 4 + (if y mod 4 = 0 then 1 else 0)"
    using div_step [of 4 "y - 1969"] by (simp add: m4)
  show "(y - 1900) div 100 = (y - 1901) div 100 + (if y mod 100 = 0 then 1 else 0)"
    using div_step [of 100 "y - 1901"] by (simp add: m100)
  show "(y - 1600) div 400 = (y - 1601) div 400 + (if y mod 400 = 0 then 1 else 0)"
    using div_step [of 400 "y - 1601"] by (simp add: m400)
qed

lemma DayFromYear_Suc: "DayFromYear (y + 1) = DayFromYear y + DaysInYear y"
proof -
  have "DayFromYear (y + 1)
      = 365 * (y - 1969) + (y - 1968) div 4 - (y - 1900) div 100 + (y - 1600) div 400"
    by (simp add: DayFromYear_def add.commute)
  also have "\<dots> = DayFromYear y + DaysInYear y"
    using leap_divides [of y]
    by (simp only: year_steps) (auto simp add: DayFromYear_def DaysInYear_def)
  finally show ?thesis .
qed

lemma DaysInYear_pos: "365 \<le> DaysInYear y"
  by (simp add: DaysInYear_def)

text \<open>The year of a day is the largest \<open>y\<close> with \<open>DayFromYear y \<le> day\<close>: searched upwards
  from a year that is not after it.\<close>

function year_search :: "int \<Rightarrow> int \<Rightarrow> int" where
  "year_search day y = (if DayFromYear (y + 1) \<le> day then year_search day (y + 1) else y)"
  by pat_completeness auto
termination
proof (relation "measure (\<lambda>(day, y). nat (day - DayFromYear (y + 1) + 1))")
  show "wf (measure (\<lambda>(day, y). nat (day - DayFromYear (y + 1) + 1)))"
    by simp
next
  fix day y :: int
  assume "DayFromYear (y + 1) \<le> day"
  moreover have "DayFromYear (y + 1) < DayFromYear (y + 1 + 1)"
    using DaysInYear_pos [of "y + 1"] by (simp only: DayFromYear_Suc [of "y + 1"])
  ultimately show "((day, y + 1), (day, y)) \<in> measure (\<lambda>(day, y). nat (day - DayFromYear (y + 1) + 1))"
    by simp
qed

declare year_search.simps [simp del]

definition YearFromDay :: "int \<Rightarrow> int" where
  "YearFromDay day =
     year_search day (1970 + (if 0 \<le> day then day div 366 else day div 365))"

definition YearFromTime :: "int \<Rightarrow> int" where
  "YearFromTime t = YearFromDay (Day t)"

definition InLeapYear :: "int \<Rightarrow> int" where
  "InLeapYear t = (if DaysInYear (YearFromTime t) = 366 then 1 else 0)"

definition DayWithinYear :: "int \<Rightarrow> int" where
  "DayWithinYear t = Day t - DayFromYear (YearFromTime t)"

text \<open>The day of the year on which month \<open>m\<close> starts, \<open>L\<close> being 1 in a leap year.\<close>

definition month_start :: "int \<Rightarrow> int \<Rightarrow> int" where
  "month_start m L =
     (if m = 0 then 0 else if m = 1 then 31 else if m = 2 then 59 + L
      else if m = 3 then 90 + L else if m = 4 then 120 + L else if m = 5 then 151 + L
      else if m = 6 then 181 + L else if m = 7 then 212 + L else if m = 8 then 243 + L
      else if m = 9 then 273 + L else if m = 10 then 304 + L else 334 + L)"

definition MonthFromTime :: "int \<Rightarrow> int" where
  "MonthFromTime t =
     (let d = DayWithinYear t; L = InLeapYear t
      in if d < 31 then 0 else if d < 59 + L then 1 else if d < 90 + L then 2
         else if d < 120 + L then 3 else if d < 151 + L then 4 else if d < 181 + L then 5
         else if d < 212 + L then 6 else if d < 243 + L then 7 else if d < 273 + L then 8
         else if d < 304 + L then 9 else if d < 334 + L then 10 else 11)"

definition DateFromTime :: "int \<Rightarrow> int" where
  "DateFromTime t = DayWithinYear t - month_start (MonthFromTime t) (InLeapYear t) + 1"

text \<open>\<open>MakeDay\<close>: the number of the day \<open>date\<close> of month \<open>month\<close> of \<open>year\<close>; a month
  outside \<open>0..11\<close> carries into the year, a date outside the month into the next months.\<close>

definition MakeDay :: "int \<Rightarrow> int \<Rightarrow> int \<Rightarrow> int" where
  "MakeDay year month date =
     (let ym = year + month div 12; mn = month mod 12
      in DayFromYear ym + month_start mn (if DaysInYear ym = 366 then 1 else 0) + date - 1)"

definition MakeDate :: "int \<Rightarrow> int \<Rightarrow> int" where
  "MakeDate day time = day * msPerDay + time"

definition LocalTime :: "int \<Rightarrow> int \<Rightarrow> int" where
  "LocalTime tz t = t + tz"

definition UTC :: "int \<Rightarrow> int \<Rightarrow> int" where
  "UTC tz t = t - tz"

text \<open>\<^verbatim>\<open>new Date(y, m, d)\<close>, as its time value; a year from 0 to 99 means 1900 to 1999.\<close>

definition Date_ymd :: "int \<Rightarrow> int \<Rightarrow> int \<Rightarrow> int \<Rightarrow> int" where
  "Date_ymd tz y m d =
     UTC tz (MakeDate (MakeDay (if 0 \<le> y \<and> y \<le> 99 then 1900 + y else y) m d) 0)"

definition getFullYear :: "int \<Rightarrow> int \<Rightarrow> int" where
  "getFullYear tz t = YearFromTime (LocalTime tz t)"

definition getMonth :: "int \<Rightarrow> int \<Rightarrow> int" where
  "getMonth tz t = MonthFromTime (LocalTime tz t)"

definition getDate :: "int \<Rightarrow> int \<Rightarrow> int" where
  "getDate tz t = DateFromTime (LocalTime tz t)"

subsection \<open>Formatting a date\<close>

text \<open>\<^verbatim>\<open>function pad2(n){ return String(n).padStart(2,'0') }\<close>\<close>

definition pad2 :: "int \<Rightarrow> string" where
  "pad2 n = (let s = int_to_string n in replicate (2 - length s) CHR ''0'' @ s)"

text \<open>\<^verbatim>\<open>
function todayDMY(){
  const now = new Date()
  return `${pad2(now.getDate())}/${pad2(now.getMonth()+1)}/${now.getFullYear()}`
}\<close> with the clock reading \<open>now\<close>; the server's \<^verbatim>\<open>formatDMY\<close> is the same function of
  a date.\<close>

definition todayDMY :: "int \<Rightarrow> int \<Rightarrow> string" where
  "todayDMY tz now =
     pad2 (getDate tz now) @ ''/'' @ pad2 (getMonth tz now + 1) @ ''/''
       @ int_to_string (getFullYear tz now)"

definition formatDMY :: "int \<Rightarrow> int \<Rightarrow> string" where
  "formatDMY tz d =
     (let dd = pad2 (getDate tz d); mm = pad2 (getMonth tz d + 1);
          yyyy = int_to_string (getFullYear tz d)
      in dd @ ''/'' @ mm @ ''/'' @ yyyy)"

subsection \<open>Parsing a date\<close>

text \<open>The regular expression \<^verbatim>\<open>/^(\d{1,2})\/(\d{1,2})\/(\d{4})$/\<close>: three runs of digits
  between two slashes, of one or two, one or two, and four digits; the result holds the
  three groups.\<close>

definition exec_dmy :: "string \<Rightarrow> (string \<times> string \<times> string) option" where
  "exec_dmy s =
     (case split_at CHR ''/'' s of
        [a, b, c] \<Rightarrow>
          if digits a \<and> (length a = 1 \<or> length a = 2) \<and> digits b \<and> (length b = 1 \<or> length b = 2)
             \<and> digits c \<and> length c = 4
          then Some (a, b, c) else None
      | _ \<Rightarrow> None)"

text \<open>\<^verbatim>\<open>
function parseDMYtoMs(dmy){
  const m = /^(\d{1,2})\/(\d{1,2})\/(\d{4})$/.exec(String(dmy||'').trim())
  if(!m) return NaN
  const d = Number(m[1]), mo = Number(m[2]), y = Number(m[3])
  const dt = new Date(y, mo-1, d)
  if (dt.getFullYear()!==y || (dt.getMonth()+1)!==mo || dt.getDate()!==d) return NaN
  return dt.getTime()
}\<close>
  The result \<open>None\<close> stands for \<open>NaN\<close>.\<close>

definition parseDMYtoMs :: "js_builtins \<Rightarrow> int \<Rightarrow> jsval \<Rightarrow> int option" where
  "parseDMYtoMs E tz dmy =
     (case exec_dmy (trim E (ToString E (js_or dmy (JStr [])))) of
        None \<Rightarrow> None
      | Some (m1, m2, m3) \<Rightarrow>
          (let d = int (digits_value m1 0); mo = int (digits_value m2 0);
               y = int (digits_value m3 0);
               dt = Date_ymd tz y (mo - 1) d
           in if getFullYear tz dt \<noteq> y \<or> getMonth tz dt + 1 \<noteq> mo \<or> getDate tz dt \<noteq> d
              then None else Some dt))"

text \<open>\<^verbatim>\<open>
function startOfDayMs(ms){
  const d = new Date(ms)
  return new Date(d.getFullYear(), d.getMonth(), d.getDate()).getTime()
}\<close>\<close>

definition startOfDayMs :: "int \<Rightarrow> int \<Rightarrow> int" where
  "startOfDayMs tz ms = Date_ymd tz (getFullYear tz ms) (getMonth tz ms) (getDate tz ms)"

section \<open>Window filter\<close>

datatype period = DAY | WEEK | MONTH

datatype js_error = TypeError

text \<open>The filter of the period DAY, \<^verbatim>\<open>bets.filter(b => (b.added_date||'').trim() === todayStr)\<close>:
  a value of \<open>added_date\<close> that is truthy and not a string has no method \<open>trim\<close>, and the
  call throws.\<close>

fun filter_day :: "js_builtins \<Rightarrow> string \<Rightarrow> obj list \<Rightarrow> js_error + obj list" where
  "filter_day E todayStr [] = Inr []"
| "filter_day E todayStr (b # bs) =
     (case js_or (get b ''added_date'') (JStr []) of
        JStr s \<Rightarrow>
          (case filter_day E todayStr bs of
             Inl e \<Rightarrow> Inl e
           | Inr r \<Rightarrow> Inr (if trim E s = todayStr then b # r else r))
      | _ \<Rightarrow> Inl TypeError)"

text \<open>\<^verbatim>\<open>
function filterBetsByAddedDate(bets, period){
  const todayStr = todayDMY()
  if (period === 'DAY'){
    return bets.filter(b => (b.added_date||'').trim() === todayStr)
  }
  const todayMs = startOfDayMs(Date.now())
  if (period === 'WEEK'){
    const startMs = todayMs - 6*24*60*60*1000
    const endMs = todayMs + 24*60*60*1000 - 1
    return bets.filter(b => {
      const t = parseDMYtoMs(b.added_date)
      return Number.isFinite(t) && t >= startMs && t <= endMs
    })
  }
  const now = new Date()
  const startMonthMs = new Date(now.getFullYear(), now.getMonth(), 1).getTime()
  const startNextMonthMs = new Date(now.getFullYear(), now.getMonth()+1, 1).getTime()
  return bets.filter(b => {
    const t = parseDMYtoMs(b.added_date)
    return Number.isFinite(t) && t >= startMonthMs && t < startNextMonthMs
  })
}\<close>
  with \<open>now\<close> the reading of the clock.\<close>

definition in_week :: "js_builtins \<Rightarrow> int \<Rightarrow> int \<Rightarrow> obj \<Rightarrow> bool" where
  "in_week E tz now b =
     (let todayMs = startOfDayMs tz now;
          startMs = todayMs - 6 * 24 * 60 * 60 * 1000;
          endMs = todayMs + 24 * 60 * 60 * 1000 - 1
      in case parseDMYtoMs E tz (get b ''added_date'') of
           None \<Rightarrow> False
         | Some t \<Rightarrow> startMs \<le> t \<and> t \<le> endMs)"

definition in_month :: "js_builtins \<Rightarrow> int \<Rightarrow> int \<Rightarrow> obj \<Rightarrow> bool" where
  "in_month E tz now b =
     (let startMonthMs = Date_ymd tz (getFullYear tz now) (getMonth tz now) 1;
          startNextMonthMs = Date_ymd tz (getFullYear tz now) (getMonth tz now + 1) 1
      in case parseDMYtoMs E tz (get b ''added_date'') of
           None \<Rightarrow> False
         | Some t \<Rightarrow> startMonthMs \<le> t \<and> t < startNextMonthMs)"

definition filterBetsByAddedDate ::
    "js_builtins \<Rightarrow> int \<Rightarrow> int \<Rightarrow> obj list \<Rightarrow> period \<Rightarrow> js_error + obj list" where
  "filterBetsByAddedDate E tz now bets period =
     (case period of
        DAY \<Rightarrow> filter_day E (todayDMY tz now) bets
      | WEEK \<Rightarrow> Inr (filter (in_week E tz now) bets)
      | MONTH \<Rightarrow> Inr (filter (in_month E tz now) bets))"

section \<open>Properties of the calendar\<close>

lemma year_estimate_le:
  "DayFromYear (1970 + (if 0 \<le> day then day div 366 else day div 365)) \<le> day"
proof (cases "0 \<le> day")
  case True
  define k where "k = day div 366"
  have k: "366 * k \<le> day" "0 \<le> k"
    using True div_bounds(1) [of 366 day] by (simp_all add: k_def pos_imp_zdiv_nonneg_iff)
  have e: "DayFromYear (1970 + k) = 365 * k + (k + 1) div 4 - (k + 69) div 100 + (k + 369) div 400"
    by (simp add: DayFromYear_def add.commute)
  have b: "(k + 1) div 4 - (k + 69) div 100 + (k + 369) div 400 \<le> k"
  proof (cases "k \<le> 1")
    case True
    with k(2) have "k = 0 \<or> k = 1"
      by arith
    then show ?thesis
      by auto
  next
    case False
    then show ?thesis
      using div_bounds(1) [of 4 "k + 1"] div_bounds(2) [of 100 "k + 69"]
        div_bounds(1) [of 400 "k + 369"]
      by linarith
  qed
  have "DayFromYear (1970 + k) \<le> 366 * k"
    using e b by linarith
  with k(1) True show ?thesis
    by (simp add: k_def)
next
  case False
  define k where "k = day div 365"
  have k: "365 * k \<le> day" "k < 0"
    using False div_bounds(1) [of 365 day] by (simp_all add: k_def neg_imp_zdiv_neg_iff)
  have e: "DayFromYear (1970 + k) = 365 * k + (k + 1) div 4 - (k + 69) div 100 + (k + 369) div 400"
    by (simp add: DayFromYear_def add.commute)
  have b: "(k + 1) div 4 - (k + 69) div 100 + (k + 369) div 400 \<le> 0"
  proof (cases "- 7 < k")
    case True
    with k(2) have "k = - 1 \<or> k = - 2 \<or> k = - 3 \<or> k = - 4 \<or> k = - 5 \<or> k = - 6"
      by arith
    then show ?thesis
      by auto
  next
    case False
    then show ?thesis
      using div_bounds(1) [of 4 "k + 1"] div_bounds(2) [of 100 "k + 69"]
        div_bounds(1) [of 400 "k + 369"]
      by linarith
  qed
  have "DayFromYear (1970 + k) \<le> 365 * k"
    using e b by linarith
  with k(1) False show ?thesis
    by (simp add: k_def)
qed

lemma year_search_bracket:
  "DayFromYear y0 \<le> day \<Longrightarrow>
     DayFromYear (year_search day y0) \<le> day \<and> day < DayFromYear (year_search day y0 + 1)"
proof (induction day y0 rule: year_search.induct)
  case (1 day y)
  show ?case
  proof (cases "DayFromYear (y + 1) \<le> day")
    case True
    then have "year_search day y = year_search day (y + 1)"
      by (subst year_search.simps) simp
    with "1.IH" [OF True True] show ?thesis
      by simp
  next
    case False
    then have "year_search day y = y"
      by (subst year_search.simps) simp
    with False "1.prems" show ?thesis
      by simp
  qed
qed

lemma YearFromDay_bracket:
  "DayFromYear (YearFromDay day) \<le> day \<and> day < DayFromYear (YearFromDay day + 1)"
  unfolding YearFromDay_def by (rule year_search_bracket) (rule year_estimate_le)

lemma DayWithinYear_range:
  "0 \<le> DayWithinYear t \<and> DayWithinYear t < DaysInYear (YearFromTime t)"
  using YearFromDay_bracket [of "Day t"]
  by (simp add: DayWithinYear_def YearFromTime_def DayFromYear_Suc)

lemma InLeapYear_cases:
  "InLeapYear t = 0 \<and> DaysInYear (YearFromTime t) = 365
   \<or> InLeapYear t = 1 \<and> DaysInYear (YearFromTime t) = 366"
  by (simp add: InLeapYear_def DaysInYear_def)

lemma MonthFromTime_range: "0 \<le> MonthFromTime t \<and> MonthFromTime t \<le> 11"
  by (simp add: MonthFromTime_def Let_def)

text \<open>The day of the year lies in the month that \<open>MonthFromTime\<close> names.\<close>

lemma month_bracket:
  "month_start (MonthFromTime t) (InLeapYear t) \<le> DayWithinYear t
   \<and> DayWithinYear t <
       (if MonthFromTime t = 11 then DaysInYear (YearFromTime t)
        else month_start (MonthFromTime t + 1) (InLeapYear t))"
proof -
  from DayWithinYear_range [of t] have r: "0 \<le> DayWithinYear t"
    "DayWithinYear t < DaysInYear (YearFromTime t)"
    by simp_all
  from InLeapYear_cases [of t] show ?thesis
  proof
    assume "InLeapYear t = 0 \<and> DaysInYear (YearFromTime t) = 365"
    with r show ?thesis
      by (simp add: MonthFromTime_def month_start_def Let_def)
  next
    assume "InLeapYear t = 1 \<and> DaysInYear (YearFromTime t) = 366"
    with r show ?thesis
      by (simp add: MonthFromTime_def month_start_def Let_def)
  qed
qed

text \<open>The number of days of month \<open>m\<close> (from 0), \<open>L\<close> being 1 in a leap year.\<close>

definition days_in_month :: "int \<Rightarrow> int \<Rightarrow> int" where
  "days_in_month m L =
     (if m = 1 then 28 + L else if m = 3 \<or> m = 5 \<or> m = 8 \<or> m = 10 then 30 else 31)"

lemma month_start_next:
  "0 \<le> m \<Longrightarrow> m < 11 \<Longrightarrow> month_start (m + 1) L = month_start m L + days_in_month m L"
proof -
  assume "0 \<le> m" "m < 11"
  then have "m = 0 \<or> m = 1 \<or> m = 2 \<or> m = 3 \<or> m = 4 \<or> m = 5 \<or> m = 6 \<or> m = 7 \<or> m = 8
      \<or> m = 9 \<or> m = 10"
    by arith
  then show ?thesis
    by (elim disjE) (simp_all add: month_start_def days_in_month_def)
qed

lemma month_start_last:
  "L = 0 \<and> n = 365 \<or> L = 1 \<and> n = 366 \<Longrightarrow> n = month_start 11 L + days_in_month 11 L"
  by (auto simp: month_start_def days_in_month_def)

lemma DateFromTime_range:
  "1 \<le> DateFromTime t \<and> DateFromTime t \<le> days_in_month (MonthFromTime t) (InLeapYear t)"
proof (cases "MonthFromTime t = 11")
  case True
  from InLeapYear_cases [of t]
  have "DaysInYear (YearFromTime t) = month_start 11 (InLeapYear t) + days_in_month 11 (InLeapYear t)"
    by (intro month_start_last) auto
  with month_bracket [of t] True show ?thesis
    by (simp add: DateFromTime_def)
next
  case False
  with MonthFromTime_range [of t] have "0 \<le> MonthFromTime t" "MonthFromTime t < 11"
    by simp_all
  from month_start_next [OF this] month_bracket [of t] False show ?thesis
    by (simp add: DateFromTime_def)
qed



lemma msPerDay_pos: "0 < msPerDay"
  by (simp add: msPerDay_def)

lemma Day_of_days: "Day (d * msPerDay) = d"
  by (simp add: Day_def msPerDay_def)

text \<open>The year, the month and the date of a time depend on its day alone.\<close>

lemma components_by_day:
  assumes "Day t = Day t'"
  shows "YearFromTime t = YearFromTime t'" "MonthFromTime t = MonthFromTime t'"
    "DateFromTime t = DateFromTime t'"
proof -
  show y: "YearFromTime t = YearFromTime t'"
    using assms by (simp add: YearFromTime_def)
  have l: "InLeapYear t = InLeapYear t'"
    using y by (simp add: InLeapYear_def)
  have w: "DayWithinYear t = DayWithinYear t'"
    using y assms by (simp add: DayWithinYear_def)
  show m: "MonthFromTime t = MonthFromTime t'"
    using l w by (simp add: MonthFromTime_def)
  show "DateFromTime t = DateFromTime t'"
    using l w m by (simp add: DateFromTime_def)
qed

text \<open>The local day of the date \<^verbatim>\<open>new Date(y, m, d)\<close>, for a year after 99.\<close>

lemma Day_Date_ymd:
  "99 < y \<Longrightarrow> Day (LocalTime tz (Date_ymd tz y m d)) = MakeDay y m d"
  by (simp add: Date_ymd_def LocalTime_def UTC_def MakeDate_def Day_of_days)



section \<open>Server\<close>

text \<open>
  The state of the server: the collection held in memory (\<^verbatim>\<open>cache\<close>), the rate held in
  memory (\<^verbatim>\<open>rateCache\<close>), the three kinds of files it writes (\<^verbatim>\<open>bets.json\<close>, the backups,
  \<^verbatim>\<open>rate.json\<close>) and the events sent to the subscribers. A file holds the JSON value
  written to it. The collection is a list of JSON objects; a request reads the clock once.
\<close>

record rate_entry =
  rubPerUsdt :: jsnum
  rate_updatedAt :: "int option"

datatype event = BetsUpdate "obj list" int | RateUpdate jsnum

record server =
  cache :: "obj list"
  rateCache :: rate_entry
  bets_file :: "obj list option"
  backups :: "(int \<times> obj list) list"
  rate_file :: "rate_entry option"
  emitted :: "event list"

record response =
  http_status :: nat
  http_body :: obj

text \<open>\<^verbatim>\<open>const ADMIN_PASSWORD = process.env.ADMIN_PASSWORD || 'betoff07'\<close>, with \<open>env\<close> the
  variable of the environment.\<close>

definition ADMIN_PASSWORD :: "string option \<Rightarrow> string" where
  "ADMIN_PASSWORD env = (case env of None \<Rightarrow> ''betoff07'' | Some p \<Rightarrow> if p = [] then ''betoff07'' else p)"

text \<open>\<^verbatim>\<open>const pw = req.headers['x-admin-password'] || ''\<close> and the test
  \<^verbatim>\<open>String(pw) !== String(ADMIN_PASSWORD)\<close>; \<open>hdr\<close> is the header, \<open>None\<close> when the request
  has none.\<close>

definition credential :: "string option \<Rightarrow> string" where
  "credential hdr = (case hdr of None \<Rightarrow> [] | Some h \<Rightarrow> if h = [] then [] else h)"

definition unauthorized :: "string option \<Rightarrow> string option \<Rightarrow> bool" where
  "unauthorized env hdr = (credential hdr \<noteq> ADMIN_PASSWORD env)"

definition auth_error :: response where
  "auth_error = \<lparr> http_status = 401, http_body = [''error'' \<mapsto> JStr ''auth''] \<rparr>"

definition not_found :: response where
  "not_found = \<lparr> http_status = 404, http_body = [''error'' \<mapsto> JStr ''not found''] \<rparr>"

definition ok_response :: response where
  "ok_response = \<lparr> http_status = 200, http_body = [''ok'' \<mapsto> JBool True] \<rparr>"

text \<open>\<^verbatim>\<open>
function writeBets(list, doBackup=false){
  const text = JSON.stringify(list, null, 2)
  fs.writeFileSync(BETS_FILE, text, 'utf8')
  if (doBackup){
    const stamp = new Date().toISOString().replace(/[:.]/g,'-')
    fs.writeFileSync(path.join(BACKUP_DIR, `bets-${stamp}.json`), text, 'utf8')
  }
}\<close>\<close>

definition writeBets :: "int \<Rightarrow> obj list \<Rightarrow> bool \<Rightarrow> server \<Rightarrow> server" where
  "writeBets now list doBackup s =
     (let s1 = s\<lparr> bets_file := Some list \<rparr>
      in if doBackup then s1\<lparr> backups := backups s1 @ [(now, list)] \<rparr> else s1)"

text \<open>\<^verbatim>\<open>
function writeRate(val){
  const v = Number(val)
  const obj = { rubPerUsdt: (Number.isFinite(v) && v > 0) ? v : DEFAULT_RUB_RATE, updatedAt: Date.now() }
  fs.writeFileSync(RATE_FILE, JSON.stringify(obj, null, 2), 'utf8')
  return obj
}\<close>\<close>

definition writeRate :: "int \<Rightarrow> jsnum \<Rightarrow> server \<Rightarrow> rate_entry \<times> server" where
  "writeRate now v s =
     (let ob = \<lparr> rubPerUsdt = (if isFinite v \<and> jlt (Fin 0) v then v else DEFAULT_RUB_RATE),
                 rate_updatedAt = Some now \<rparr>
      in (ob, s\<lparr> rate_file := Some ob \<rparr>))"

definition emit :: "event \<Rightarrow> server \<Rightarrow> server" where
  "emit ev s = s\<lparr> emitted := emitted s @ [ev] \<rparr>"

text \<open>\<^verbatim>\<open>a <= b\<close> on numbers.\<close>

definition jle :: "jsnum \<Rightarrow> jsnum \<Rightarrow> bool" where
  "jle a b = (jlt a b \<or> (a = b \<and> a \<noteq> NaN))"

text \<open>\<^verbatim>\<open>
app.put('/api/rate', (req,res)=>{
  const pw = req.headers['x-admin-password'] || ''
  if(String(pw) !== String(ADMIN_PASSWORD)) return res.status(401).json({ error: 'auth' })
  const body = req.body || {}
  const val = Number(body.rubPerUsdt)
  if(!Number.isFinite(val) || val <= 0) return res.status(400).json({ error: 'invalid rate' })
  rateCache = writeRate(val)
  io.emit('rate:update', { rubPerUsdt: rateCache.rubPerUsdt })
  res.json({ ok: true, rubPerUsdt: rateCache.rubPerUsdt })
})\<close>\<close>

definition put_rate ::
    "js_builtins \<Rightarrow> string option \<Rightarrow> int \<Rightarrow> string option \<Rightarrow> json_body \<Rightarrow> server
     \<Rightarrow> response \<times> server" where
  "put_rate E env now hdr body s =
     (if unauthorized env hdr then (auth_error, s)
      else
        (let val = ToNumber E (body_get body ''rubPerUsdt'')
         in if \<not> isFinite val \<or> jle val (Fin 0)
            then (\<lparr> http_status = 400, http_body = [''error'' \<mapsto> JStr ''invalid rate''] \<rparr>, s)
            else
              (case writeRate now val s of
                 (ob, s1) \<Rightarrow>
                   (\<lparr> http_status = 200,
                      http_body = [''ok'' \<mapsto> JBool True, ''rubPerUsdt'' \<mapsto> JNum (rubPerUsdt ob)] \<rparr>,
                    emit (RateUpdate (rubPerUsdt ob)) (s1\<lparr> rateCache := ob \<rparr>)))))"

text \<open>\<^verbatim>\<open>
function ensureAddedDateOnArray(arr){
  const today = formatDMY(new Date())
  return arr.map(item => {
    if (item && typeof item === 'object' && !item.added_date){
      return { ...item, added_date: today }
    }
    return item
  })
}\<close>\<close>

definition ensureAddedDateOnArray :: "int \<Rightarrow> int \<Rightarrow> obj list \<Rightarrow> obj list" where
  "ensureAddedDateOnArray tz now arr =
     (let today = formatDMY tz now
      in map (\<lambda>item. if \<not> truthy (get item ''added_date'')
                      then item(''added_date'' \<mapsto> JStr today) else item) arr)"

text \<open>\<^verbatim>\<open>
app.put('/api/bets', (req,res)=>{
  const pw = req.headers['x-admin-password'] || ''
  if(String(pw) !== String(ADMIN_PASSWORD)) return res.status(401).json({ error: 'auth' })
  const body = req.body
  if(!Array.isArray(body)) return res.status(400).json({ error: 'array required' })
  cache = ensureAddedDateOnArray(body)
  writeBets(cache, true)
  io.emit('bets:update', { items: cache, updatedAt: Date.now() })
  return res.json({ ok: true })
})\<close>
  The body is \<open>None\<close> when it is not an array.\<close>

definition put_bets ::
    "js_builtins \<Rightarrow> string option \<Rightarrow> int \<Rightarrow> int \<Rightarrow> string option \<Rightarrow> obj list option
     \<Rightarrow> server \<Rightarrow> response \<times> server" where
  "put_bets E env tz now hdr body s =
     (if unauthorized env hdr then (auth_error, s)
      else
        (case body of
           None \<Rightarrow> (\<lparr> http_status = 400, http_body = [''error'' \<mapsto> JStr ''array required''] \<rparr>, s)
         | Some arr \<Rightarrow>
             (let s1 = s\<lparr> cache := ensureAddedDateOnArray tz now arr \<rparr>;
                  s2 = writeBets now (cache s1) True s1
              in (ok_response, emit (BetsUpdate (cache s2) now) s2))))"

text \<open>\<^verbatim>\<open>
app.post('/api/bets', (req,res)=>{
  const pw = req.headers['x-admin-password'] || ''
  if(String(pw) !== String(ADMIN_PASSWORD)) return res.status(401).json({ error: 'auth' })
  const obj = req.body || {}
  if(!obj.id) obj.id = String(Date.now())
  if(!obj.added_date) obj.added_date = formatDMY(new Date())
  cache = [obj, ...cache]
  writeBets(cache, true)
  io.emit('bets:update', { items: cache, updatedAt: Date.now() })
  res.json({ ok: true, id: obj.id })
})\<close>
  The body of a POST and of a PATCH is a JSON object, or \<open>None\<close> when there is none.\<close>

definition post_bet ::
    "js_builtins \<Rightarrow> string option \<Rightarrow> int \<Rightarrow> int \<Rightarrow> string option \<Rightarrow> obj option
     \<Rightarrow> server \<Rightarrow> response \<times> server" where
  "post_bet E env tz now hdr body s =
     (if unauthorized env hdr then (auth_error, s)
      else
        (let ob0 = (case body of None \<Rightarrow> Map.empty | Some b \<Rightarrow> b);
             ob1 = (if \<not> truthy (get ob0 ''id'') then ob0(''id'' \<mapsto> JStr (int_to_string now))
                    else ob0);
             ob2 = (if \<not> truthy (get ob1 ''added_date'')
                    then ob1(''added_date'' \<mapsto> JStr (formatDMY tz now)) else ob1);
             s1 = s\<lparr> cache := ob2 # cache s \<rparr>;
             s2 = writeBets now (cache s1) True s1
         in (\<lparr> http_status = 200, http_body = [''ok'' \<mapsto> JBool True, ''id'' \<mapsto> get ob2 ''id''] \<rparr>,
             emit (BetsUpdate (cache s2) now) s2)))"

text \<open>\<^verbatim>\<open>
app.patch('/api/bets/:id', (req,res)=>{
  const pw = req.headers['x-admin-password'] || ''
  if(String(pw) !== String(ADMIN_PASSWORD)) return res.status(401).json({ error: 'auth' })
  const id = String(req.params.id || '')
  const idx = cache.findIndex(x => String(x.id) === id)
  if(idx === -1) return res.status(404).json({ error: 'not found' })
  const patch = req.body || {}
  cache[idx] = { ...cache[idx], ...patch }
  if(!cache[idx].added_date) cache[idx].added_date = formatDMY(new Date())
  writeBets(cache, true)
  io.emit('bets:update', { items: cache, updatedAt: Date.now() })
  res.json({ ok: true })
})\<close>\<close>

definition patch_bet ::
    "js_builtins \<Rightarrow> string option \<Rightarrow> int \<Rightarrow> int \<Rightarrow> string option \<Rightarrow> string \<Rightarrow> obj option
     \<Rightarrow> server \<Rightarrow> response \<times> server" where
  "patch_bet E env tz now hdr ident body s =
     (if unauthorized env hdr then (auth_error, s)
      else
        (case findIndex (\<lambda>x. ToString E (get x ''id'') = ident) (cache s) of
           None \<Rightarrow> (not_found, s)
         | Some idx \<Rightarrow>
             (let patch = (case body of None \<Rightarrow> Map.empty | Some b \<Rightarrow> b);
                  merged = (cache s ! idx) ++ patch;
                  dated = (if \<not> truthy (get merged ''added_date'')
                           then merged(''added_date'' \<mapsto> JStr (formatDMY tz now)) else merged);
                  s1 = s\<lparr> cache := (cache s)[idx := dated] \<rparr>;
                  s2 = writeBets now (cache s1) True s1
              in (ok_response, emit (BetsUpdate (cache s2) now) s2))))"

text \<open>The older copy of the server (\<^verbatim>\<open>server/server.js\<close>) has the same handler without the
  line that assigns \<^verbatim>\<open>added_date\<close>.\<close>

definition patch_bet_legacy ::
    "js_builtins \<Rightarrow> string option \<Rightarrow> int \<Rightarrow> string option \<Rightarrow> string \<Rightarrow> obj option
     \<Rightarrow> server \<Rightarrow> response \<times> server" where
  "patch_bet_legacy E env now hdr ident body s =
     (if unauthorized env hdr then (auth_error, s)
      else
        (case findIndex (\<lambda>x. ToString E (get x ''id'') = ident) (cache s) of
           None \<Rightarrow> (not_found, s)
         | Some idx \<Rightarrow>
             (let patch = (case body of None \<Rightarrow> Map.empty | Some b \<Rightarrow> b);
                  s1 = s\<lparr> cache := (cache s)[idx := (cache s ! idx) ++ patch] \<rparr>;
                  s2 = writeBets now (cache s1) True s1
              in (ok_response, emit (BetsUpdate (cache s2) now) s2))))"

text \<open>\<^verbatim>\<open>
app.delete('/api/bets/:id', (req,res)=>{
  const pw = req.headers['x-admin-password'] || ''
  if(String(pw) !== String(ADMIN_PASSWORD)) return res.status(401).json({ error: 'auth' })
  const id = String(req.params.id || '')
  const lenBefore = cache.length
  cache = cache.filter(x => String(x.id) !== id)
  if (cache.length === lenBefore) return res.status(404).json({ error: 'not found' })
  writeBets(cache, true)
  io.emit('bets:update', { items: cache, updatedAt: Date.now() })
  res.json({ ok: true })
})\<close>\<close>

definition delete_bet ::
    "js_builtins \<Rightarrow> string option \<Rightarrow> int \<Rightarrow> string option \<Rightarrow> string \<Rightarrow> server
     \<Rightarrow> response \<times> server" where
  "delete_bet E env now hdr ident s =
     (if unauthorized env hdr then (auth_error, s)
      else
        (let lenBefore = length (cache s);
             s1 = s\<lparr> cache := filter (\<lambda>x. ToString E (get x ''id'') \<noteq> ident) (cache s) \<rparr>
         in if length (cache s1) = lenBefore then (not_found, s1)
            else
              (let s2 = writeBets now (cache s1) True s1
               in (ok_response, emit (BetsUpdate (cache s2) now) s2))))"

subsection \<open>Requests without the credential\<close>

lemma ADMIN_PASSWORD_nonempty: "ADMIN_PASSWORD env \<noteq> []"
  by (simp add: ADMIN_PASSWORD_def split: option.split)

lemma missing_credential: "unauthorized env None"
  using ADMIN_PASSWORD_nonempty [of env] by (simp add: unauthorized_def credential_def)

lemma wrong_credential: "h \<noteq> ADMIN_PASSWORD env \<Longrightarrow> unauthorized env (Some h)"
  using ADMIN_PASSWORD_nonempty [of env] by (auto simp: unauthorized_def credential_def)

text \<open>
  Claim C8. A request with no credential, or with one that differs from the password, is
  unauthorized. Each of the five mutating operations, called unauthorized, answers with
  the status 401 and the body \<^verbatim>\<open>{error: 'auth'}\<close> and returns the state it was given: the
  collection, the rate, the files and the list of events sent are what they were.
\<close>

theorem unauthorized_changes_nothing:
  "unauthorized env None
   \<and> (h \<noteq> ADMIN_PASSWORD env \<longrightarrow> unauthorized env (Some h))
   \<and> (unauthorized env hdr \<longrightarrow>
        put_bets E env tz now hdr arr s = (auth_error, s)
        \<and> post_bet E env tz now hdr body s = (auth_error, s)
        \<and> patch_bet E env tz now hdr ident body s = (auth_error, s)
        \<and> delete_bet E env now hdr ident s = (auth_error, s)
        \<and> put_rate E env now hdr rbody s = (auth_error, s))
   \<and> http_status auth_error = 401"
proof -
  have a: "unauthorized env None"
    by (rule missing_credential)
  have b: "h \<noteq> ADMIN_PASSWORD env \<longrightarrow> unauthorized env (Some h)"
    by (simp add: wrong_credential)
  have c: "unauthorized env hdr \<longrightarrow>
        put_bets E env tz now hdr arr s = (auth_error, s)
        \<and> post_bet E env tz now hdr body s = (auth_error, s)
        \<and> patch_bet E env tz now hdr ident body s = (auth_error, s)
        \<and> delete_bet E env now hdr ident s = (auth_error, s)
        \<and> put_rate E env now hdr rbody s = (auth_error, s)"
    by (simp add: put_bets_def post_bet_def patch_bet_def delete_bet_def put_rate_def)
  have d: "http_status auth_error = 401"
    by (simp add: auth_error_def)
  show ?thesis
    using a b c d by - (intro conjI; assumption)
qed

text \<open>A server that holds two records, the second without a date.\<close>

definition bet_a :: obj where
  "bet_a = [''id'' \<mapsto> JStr ''a'', ''status'' \<mapsto> JStr STATUS_PENDING,
     ''stake_value'' \<mapsto> JNum (Fin 10), ''added_date'' \<mapsto> JStr ''01/11/2026'']"

definition bet_b :: obj where
  "bet_b = [''id'' \<mapsto> JStr ''b'', ''status'' \<mapsto> JStr STATUS_PENDING,
     ''stake_value'' \<mapsto> JNum (Fin 20)]"

definition sample_server :: server where
  "sample_server =
     \<lparr> cache = [bet_a, bet_b],
       rateCache = \<lparr> rubPerUsdt = DEFAULT_RUB_RATE, rate_updatedAt = None \<rparr>,
       bets_file = Some [bet_a, bet_b], backups = [], rate_file = None, emitted = [] \<rparr>"

theorem unauthorized_changes_nothing_witness:
  "unauthorized None None
   \<and> unauthorized None (Some ''guess'')
   \<and> put_bets sample_builtins None 0 1793664000000 (Some ''guess'') (Some []) sample_server
       = (auth_error, sample_server)
   \<and> post_bet sample_builtins None 0 1793664000000 (Some ''guess'') (Some bet_b) sample_server
       = (auth_error, sample_server)
   \<and> patch_bet sample_builtins None 0 1793664000000 (Some ''guess'') ''a''
         (Some [''status'' \<mapsto> JStr STATUS_WON]) sample_server
       = (auth_error, sample_server)
   \<and> delete_bet sample_builtins None 1793664000000 (Some ''guess'') ''a'' sample_server
       = (auth_error, sample_server)
   \<and> put_rate sample_builtins None 1793664000000 None
         (BodyObj [''rubPerUsdt'' \<mapsto> JNum (Fin 90)]) sample_server
       = (auth_error, sample_server)"
proof -
  have g: "''guess'' \<noteq> ADMIN_PASSWORD None"
    by (simp add: ADMIN_PASSWORD_def)
  note th1 = unauthorized_changes_nothing [of None "''guess''" "Some ''guess''" sample_builtins 0
      1793664000000 "Some []" sample_server "Some bet_b" "''a''"
      "BodyObj [''rubPerUsdt'' \<mapsto> JNum (Fin 90)]"]
  note th2 = unauthorized_changes_nothing [of None "''guess''" "Some ''guess''" sample_builtins 0
      1793664000000 "Some []" sample_server "Some [''status'' \<mapsto> JStr STATUS_WON]" "''a''"
      "BodyObj [''rubPerUsdt'' \<mapsto> JNum (Fin 90)]"]
  note th3 = unauthorized_changes_nothing [of None "''guess''" None sample_builtins 0
      1793664000000 "Some []" sample_server "Some bet_b" "''a''"
      "BodyObj [''rubPerUsdt'' \<mapsto> JNum (Fin 90)]"]
  have u: "unauthorized None (Some ''guess'')"
    using th1 g by blast
  have n: "unauthorized None None"
    using th1 by blast
  show ?thesis
    using th1 th2 th3 u n by simp
qed

subsection \<open>Patching a record\<close>

lemma formatDMY_nonempty: "formatDMY tz now \<noteq> []"
  by (simp add: formatDMY_def Let_def)

lemma patch_bet_found:
  assumes "\<not> unauthorized env hdr"
    and "findIndex (\<lambda>x. ToString E (get x ''id'') = ident) (cache s) = Some idx"
  shows "fst (patch_bet E env tz now hdr ident body s) = ok_response"
    and "cache (snd (patch_bet E env tz now hdr ident body s)) =
           (cache s)[idx :=
              (let merged = (cache s ! idx) ++ (case body of None \<Rightarrow> Map.empty | Some b \<Rightarrow> b)
               in if \<not> truthy (get merged ''added_date'')
                  then merged(''added_date'' \<mapsto> JStr (formatDMY tz now)) else merged)]"
    and "bets_file (snd (patch_bet E env tz now hdr ident body s))
           = Some (cache (snd (patch_bet E env tz now hdr ident body s)))"
    and "emitted (snd (patch_bet E env tz now hdr ident body s))
           = emitted s @ [BetsUpdate (cache (snd (patch_bet E env tz now hdr ident body s))) now]"
  using assms by (simp_all add: patch_bet_def Let_def writeBets_def emit_def)

lemma patch_bet_legacy_found:
  assumes "\<not> unauthorized env hdr"
    and "findIndex (\<lambda>x. ToString E (get x ''id'') = ident) (cache s) = Some idx"
  shows "fst (patch_bet_legacy E env now hdr ident body s) = ok_response"
    and "cache (snd (patch_bet_legacy E env now hdr ident body s)) =
           (cache s)[idx := (cache s ! idx) ++ (case body of None \<Rightarrow> Map.empty | Some b \<Rightarrow> b)]"
  using assms by (simp_all add: patch_bet_legacy_def Let_def writeBets_def emit_def)

lemma truthy_dated:
  "truthy (get (if \<not> truthy (get m ''added_date'')
                then m(''added_date'' \<mapsto> JStr (formatDMY tz now)) else m) ''added_date'')"
  by (simp add: get_def truthy_def formatDMY_nonempty)

text \<open>
  Claim C9, as the code has it. The repository holds two copies of the handler. In both,
  a successful PATCH (authorized, the id found at the index \<open>idx\<close>) answers 200, leaves the
  length of the collection and every record at another index as they were, and gives the
  record at \<open>idx\<close> the fields of the patch over its own: a field not named in the patch
  keeps its value. In the current server the record then gets today's date as
  \<open>added_date\<close> when the merged record has none (absent or falsy), so \<open>added_date\<close> is
  set afterwards in all cases, a date that was set and is not named in the patch stays,
  and the new collection is written to the file and sent to the subscribers. The older
  copy assigns no date: there the merged record is the result, whatever its \<open>added_date\<close>.
\<close>

theorem patch_merges_supplied_fields:
  fixes E :: js_builtins and env hdr :: "string option" and tz now :: int and ident :: string
    and body :: "obj option" and s :: server and idx :: nat
  assumes "\<not> unauthorized env hdr"
    and "findIndex (\<lambda>x. ToString E (get x ''id'') = ident) (cache s) = Some idx"
  defines "old \<equiv> cache s ! idx"
    and "p \<equiv> (case body of None \<Rightarrow> Map.empty | Some b \<Rightarrow> b)"
    and "new \<equiv> cache (snd (patch_bet E env tz now hdr ident body s))"
    and "new_legacy \<equiv> cache (snd (patch_bet_legacy E env now hdr ident body s))"
  shows "fst (patch_bet E env tz now hdr ident body s) = ok_response
       \<and> idx < length (cache s) \<and> length new = length (cache s)
       \<and> (\<forall>j < length (cache s). j \<noteq> idx \<longrightarrow> new ! j = cache s ! j)
       \<and> (\<forall>k. k \<notin> dom p \<and> k \<noteq> ''added_date'' \<longrightarrow> (new ! idx) k = old k)
       \<and> (\<forall>k \<in> dom p. k \<noteq> ''added_date'' \<longrightarrow> (new ! idx) k = p k)
       \<and> (''added_date'' \<notin> dom p \<and> truthy (get old ''added_date'') \<longrightarrow>
            (new ! idx) ''added_date'' = old ''added_date'')
       \<and> (truthy (get (old ++ p) ''added_date'') \<longrightarrow>
            (new ! idx) ''added_date'' = (old ++ p) ''added_date'')
       \<and> (\<not> truthy (get (old ++ p) ''added_date'') \<longrightarrow>
            (new ! idx) ''added_date'' = Some (JStr (formatDMY tz now)))
       \<and> truthy (get (new ! idx) ''added_date'')
       \<and> bets_file (snd (patch_bet E env tz now hdr ident body s)) = Some new
       \<and> emitted (snd (patch_bet E env tz now hdr ident body s))
            = emitted s @ [BetsUpdate new now]
       \<and> fst (patch_bet_legacy E env now hdr ident body s) = ok_response
       \<and> length new_legacy = length (cache s)
       \<and> (\<forall>j < length (cache s). j \<noteq> idx \<longrightarrow> new_legacy ! j = cache s ! j)
       \<and> new_legacy ! idx = old ++ p
       \<and> (\<forall>k. k \<notin> dom p \<longrightarrow> (new_legacy ! idx) k = old k)"
proof -
  note f = findIndex_Some [OF assms(2)]
  from f have i: "idx < length (cache s)"
    by simp
  note c = patch_bet_found [OF assms(1,2), of tz now body]
  note l = patch_bet_legacy_found [OF assms(1,2), of now body]
  define dated where "dated =
      (if \<not> truthy (get (old ++ p) ''added_date'')
       then (old ++ p)(''added_date'' \<mapsto> JStr (formatDMY tz now)) else old ++ p)"
  have n: "new = (cache s)[idx := dated]"
    by (simp add: new_def c(2) dated_def old_def p_def Let_def)
  have ni: "new ! idx = dated"
    using i by (simp add: n)
  have nl: "new_legacy = (cache s)[idx := old ++ p]"
    by (simp add: new_legacy_def l(2) old_def p_def)
  have 1: "fst (patch_bet E env tz now hdr ident body s) = ok_response"
    by (rule c(1))
  have 2: "length new = length (cache s)"
    by (simp add: n)
  have 3: "\<forall>j < length (cache s). j \<noteq> idx \<longrightarrow> new ! j = cache s ! j"
    by (simp add: n)
  have 4: "\<forall>k. k \<notin> dom p \<and> k \<noteq> ''added_date'' \<longrightarrow> (new ! idx) k = old k"
    by (auto simp: ni dated_def map_add_def split: option.splits)
  have 5: "\<forall>k \<in> dom p. k \<noteq> ''added_date'' \<longrightarrow> (new ! idx) k = p k"
    by (auto simp: ni dated_def map_add_def split: option.splits)
  have 7: "truthy (get (old ++ p) ''added_date'') \<longrightarrow>
            (new ! idx) ''added_date'' = (old ++ p) ''added_date''"
    by (simp add: ni dated_def)
  have g: "''added_date'' \<notin> dom p \<Longrightarrow> get (old ++ p) ''added_date'' = get old ''added_date''"
    by (auto simp: get_def map_add_def split: option.splits)
  have 6: "''added_date'' \<notin> dom p \<and> truthy (get old ''added_date'') \<longrightarrow>
            (new ! idx) ''added_date'' = old ''added_date''"
    using g by (auto simp: ni dated_def map_add_def split: option.splits)
  have 8: "\<not> truthy (get (old ++ p) ''added_date'') \<longrightarrow>
            (new ! idx) ''added_date'' = Some (JStr (formatDMY tz now))"
    by (simp add: ni dated_def)
  have 9: "truthy (get (new ! idx) ''added_date'')"
    unfolding ni dated_def by (rule truthy_dated)
  have 10: "bets_file (snd (patch_bet E env tz now hdr ident body s)) = Some new"
    by (simp add: c(3) new_def)
  have 11: "emitted (snd (patch_bet E env tz now hdr ident body s))
            = emitted s @ [BetsUpdate new now]"
    by (simp add: c(4) new_def)
  have 12: "fst (patch_bet_legacy E env now hdr ident body s) = ok_response"
    by (rule l(1))
  have 13: "length new_legacy = length (cache s)"
    by (simp add: nl)
  have 14: "\<forall>j < length (cache s). j \<noteq> idx \<longrightarrow> new_legacy ! j = cache s ! j"
    by (simp add: nl)
  have 15: "new_legacy ! idx = old ++ p"
    using i by (simp add: nl)
  have 16: "\<forall>k. k \<notin> dom p \<longrightarrow> (new_legacy ! idx) k = old k"
    by (auto simp: 15 map_add_def split: option.splits)
  show ?thesis
    using 1 i 2 3 4 5 6 7 8 9 10 11 12 13 14 15 16 by - (intro conjI; assumption)
qed

text \<open>The clock reading 1793664000000 is 3 November 2026, 00:00 UTC.\<close>

lemma sample_today: "formatDMY 0 1793664000000 = ''03/11/2026''"
  by code_simp

lemma sample_authorized: "\<not> unauthorized None (Some ''betoff07'')"
  by (simp add: unauthorized_def credential_def ADMIN_PASSWORD_def)

lemma sample_find:
  "findIndex (\<lambda>x. ToString sample_builtins (get x ''id'') = ''a'') (cache sample_server) = Some 0"
  "findIndex (\<lambda>x. ToString sample_builtins (get x ''id'') = ''b'') (cache sample_server) = Some 1"
  by (simp_all add: sample_server_def bet_a_def bet_b_def get_def ToString_def)

text \<open>Patching the second record of the sample server with \<^verbatim>\<open>{status: WON}\<close>: the stake
  stays, the status changes, the record gets the date of the day, and the first record is
  untouched. Patching the first record the same way leaves its date as it was.\<close>

theorem patch_merges_supplied_fields_witness:
  "fst (patch_bet sample_builtins None 0 1793664000000 (Some ''betoff07'') ''b''
          (Some [''status'' \<mapsto> JStr STATUS_WON]) sample_server) = ok_response
   \<and> cache (snd (patch_bet sample_builtins None 0 1793664000000 (Some ''betoff07'') ''b''
          (Some [''status'' \<mapsto> JStr STATUS_WON]) sample_server)) ! 0 = bet_a
   \<and> (cache (snd (patch_bet sample_builtins None 0 1793664000000 (Some ''betoff07'') ''b''
          (Some [''status'' \<mapsto> JStr STATUS_WON]) sample_server)) ! 1) ''stake_value''
       = Some (JNum (Fin 20))
   \<and> (cache (snd (patch_bet sample_builtins None 0 1793664000000 (Some ''betoff07'') ''b''
          (Some [''status'' \<mapsto> JStr STATUS_WON]) sample_server)) ! 1) ''status''
       = Some (JStr STATUS_WON)
   \<and> (cache (snd (patch_bet sample_builtins None 0 1793664000000 (Some ''betoff07'') ''b''
          (Some [''status'' \<mapsto> JStr STATUS_WON]) sample_server)) ! 1) ''added_date''
       = Some (JStr ''03/11/2026'')
   \<and> (cache (snd (patch_bet sample_builtins None 0 1793664000000 (Some ''betoff07'') ''a''
          (Some [''status'' \<mapsto> JStr STATUS_WON]) sample_server)) ! 0) ''added_date''
       = Some (JStr ''01/11/2026'')
   \<and> (cache (snd (patch_bet_legacy sample_builtins None 1793664000000 (Some ''betoff07'') ''b''
          (Some [''status'' \<mapsto> JStr STATUS_WON]) sample_server)) ! 1) ''stake_value''
       = Some (JNum (Fin 20))"
proof -
  note thb = patch_merges_supplied_fields [OF sample_authorized sample_find(2), of 0 1793664000000
      "Some [''status'' \<mapsto> JStr STATUS_WON]"]
  note tha = patch_merges_supplied_fields [OF sample_authorized sample_find(1), of 0 1793664000000
      "Some [''status'' \<mapsto> JStr STATUS_WON]"]
  have c: "cache sample_server = [bet_a, bet_b]"
    by (simp add: sample_server_def)
  have ub: "\<not> truthy (get (bet_b ++ [''status'' \<mapsto> JStr STATUS_WON]) ''added_date'')"
    by (simp add: bet_b_def get_def truthy_def)
  have ta: "truthy (get bet_a ''added_date'')"
    by (simp add: bet_a_def get_def truthy_def)
  have 1: "fst (patch_bet sample_builtins None 0 1793664000000 (Some ''betoff07'') ''b''
          (Some [''status'' \<mapsto> JStr STATUS_WON]) sample_server) = ok_response"
    using thb by blast
  have 2: "cache (snd (patch_bet sample_builtins None 0 1793664000000 (Some ''betoff07'') ''b''
          (Some [''status'' \<mapsto> JStr STATUS_WON]) sample_server)) ! 0 = bet_a"
    using thb [THEN conjunct2, THEN conjunct2, THEN conjunct2, THEN conjunct1] by (simp add: c)
  have 3: "(cache (snd (patch_bet sample_builtins None 0 1793664000000 (Some ''betoff07'') ''b''
          (Some [''status'' \<mapsto> JStr STATUS_WON]) sample_server)) ! 1) ''stake_value''
       = Some (JNum (Fin 20))"
    using thb [THEN conjunct2, THEN conjunct2, THEN conjunct2, THEN conjunct2, THEN conjunct1]
    by (simp add: c bet_b_def)
  have 4: "(cache (snd (patch_bet sample_builtins None 0 1793664000000 (Some ''betoff07'') ''b''
          (Some [''status'' \<mapsto> JStr STATUS_WON]) sample_server)) ! 1) ''status''
       = Some (JStr STATUS_WON)"
    using thb [THEN conjunct2, THEN conjunct2, THEN conjunct2, THEN conjunct2, THEN conjunct2,
        THEN conjunct1]
    by simp
  have 5: "(cache (snd (patch_bet sample_builtins None 0 1793664000000 (Some ''betoff07'') ''b''
          (Some [''status'' \<mapsto> JStr STATUS_WON]) sample_server)) ! 1) ''added_date''
       = Some (JStr ''03/11/2026'')"
    using thb [THEN conjunct2, THEN conjunct2, THEN conjunct2, THEN conjunct2, THEN conjunct2,
        THEN conjunct2, THEN conjunct2, THEN conjunct2, THEN conjunct1] ub
    by (simp add: c sample_today)
  have 6: "(cache (snd (patch_bet sample_builtins None 0 1793664000000 (Some ''betoff07'') ''a''
          (Some [''status'' \<mapsto> JStr STATUS_WON]) sample_server)) ! 0) ''added_date''
       = Some (JStr ''01/11/2026'')"
    using tha [THEN conjunct2, THEN conjunct2, THEN conjunct2, THEN conjunct2, THEN conjunct2,
        THEN conjunct2, THEN conjunct1] ta
    by (simp add: c bet_a_def)
  have 7: "(cache (snd (patch_bet_legacy sample_builtins None 1793664000000 (Some ''betoff07'') ''b''
          (Some [''status'' \<mapsto> JStr STATUS_WON]) sample_server)) ! 1) ''stake_value''
       = Some (JNum (Fin 20))"
    using thb by (simp add: c bet_b_def)
  show ?thesis
    using 1 2 3 4 5 6 7 by - (intro conjI; assumption)
qed

text \<open>The claim as stated fails on the older copy: the same patch of the second record,
  which has no date, succeeds and leaves it without one.\<close>

theorem patch_bet_legacy_counterexample:
  "\<not> unauthorized None (Some ''betoff07'')
   \<and> fst (patch_bet_legacy sample_builtins None 1793664000000 (Some ''betoff07'') ''b''
          (Some [''status'' \<mapsto> JStr STATUS_WON]) sample_server) = ok_response
   \<and> get (cache (snd (patch_bet_legacy sample_builtins None 1793664000000 (Some ''betoff07'') ''b''
          (Some [''status'' \<mapsto> JStr STATUS_WON]) sample_server)) ! 1) ''status''
       = JStr STATUS_WON
   \<and> get (cache (snd (patch_bet_legacy sample_builtins None 1793664000000 (Some ''betoff07'') ''b''
          (Some [''status'' \<mapsto> JStr STATUS_WON]) sample_server)) ! 1) ''added_date''
       = JUndefined
   \<and> \<not> truthy (get (cache (snd (patch_bet_legacy sample_builtins None 1793664000000
          (Some ''betoff07'') ''b'' (Some [''status'' \<mapsto> JStr STATUS_WON]) sample_server)) ! 1)
          ''added_date'')"
  using patch_bet_legacy_found [OF sample_authorized sample_find(2), of 1793664000000
      "Some [''status'' \<mapsto> JStr STATUS_WON]"] sample_authorized
  by (simp add: sample_server_def bet_b_def get_def truthy_def)

section \<open>Properties of the date parser\<close>

subsection \<open>Strings of digits\<close>

















subsection \<open>What the parser accepts\<close>

text \<open>The getters of a date built by \<^verbatim>\<open>new Date(y, m, d)\<close>, for a year after 99.\<close>

lemma getters_Date_ymd:
  assumes "99 < y"
  shows "getFullYear tz (Date_ymd tz y m d) = YearFromTime (MakeDay y m d * msPerDay)"
    and "getMonth tz (Date_ymd tz y m d) = MonthFromTime (MakeDay y m d * msPerDay)"
    and "getDate tz (Date_ymd tz y m d) = DateFromTime (MakeDay y m d * msPerDay)"
proof -
  have "Day (LocalTime tz (Date_ymd tz y m d)) = Day (MakeDay y m d * msPerDay)"
    using assms by (simp add: Day_Date_ymd Day_of_days)
  from components_by_day [OF this]
  show "getFullYear tz (Date_ymd tz y m d) = YearFromTime (MakeDay y m d * msPerDay)"
    and "getMonth tz (Date_ymd tz y m d) = MonthFromTime (MakeDay y m d * msPerDay)"
    and "getDate tz (Date_ymd tz y m d) = DateFromTime (MakeDay y m d * msPerDay)"
    by (simp_all add: getFullYear_def getMonth_def getDate_def)
qed

text \<open>The string the parser reads from a value: \<^verbatim>\<open>String(dmy||'').trim()\<close>.\<close>

definition parsed_text :: "js_builtins \<Rightarrow> jsval \<Rightarrow> string" where
  "parsed_text E v = trim E (ToString E (js_or v (JStr [])))"

lemma parseDMYtoMs_Some:
  assumes "parseDMYtoMs E tz v = Some t"
  obtains m1 m2 m3 where "exec_dmy (parsed_text E v) = Some (m1, m2, m3)"
    and "t = Date_ymd tz (int (digits_value m3 0)) (int (digits_value m2 0) - 1)
              (int (digits_value m1 0))"
    and "getFullYear tz t = int (digits_value m3 0)"
    and "getMonth tz t + 1 = int (digits_value m2 0)"
    and "getDate tz t = int (digits_value m1 0)"
  using assms
  by (auto simp: parseDMYtoMs_def parsed_text_def Let_def split: option.splits if_splits)

lemma parseDMYtoMs_mismatch:
  assumes "exec_dmy (parsed_text E v) = Some (m1, m2, m3)"
    and "getFullYear tz (Date_ymd tz (int (digits_value m3 0)) (int (digits_value m2 0) - 1)
              (int (digits_value m1 0))) \<noteq> int (digits_value m3 0)
       \<or> getMonth tz (Date_ymd tz (int (digits_value m3 0)) (int (digits_value m2 0) - 1)
              (int (digits_value m1 0))) + 1 \<noteq> int (digits_value m2 0)
       \<or> getDate tz (Date_ymd tz (int (digits_value m3 0)) (int (digits_value m2 0) - 1)
              (int (digits_value m1 0))) \<noteq> int (digits_value m1 0)"
  shows "parseDMYtoMs E tz v = None"
  using assms by (auto simp: parseDMYtoMs_def parsed_text_def Let_def)

text \<open>A date the parser accepts is a date of the calendar: the month is from 1 to 12 and
  the day from 1 to the length of that month in that year.\<close>

lemma leap_of_time: "InLeapYear t = (if DaysInYear (YearFromTime t) = 366 then 1 else 0)"
  by (simp add: InLeapYear_def)

lemma accepted_is_calendar_date:
  assumes "getFullYear tz t = y" "getMonth tz t + 1 = mo" "getDate tz t = d"
  shows "1 \<le> mo \<and> mo \<le> 12 \<and> 1 \<le> d
       \<and> d \<le> days_in_month (mo - 1) (if DaysInYear y = 366 then 1 else 0)"
  using assms MonthFromTime_range [of "LocalTime tz t"] DateFromTime_range [of "LocalTime tz t"]
  by (auto simp: getFullYear_def getMonth_def getDate_def leap_of_time)




subsection \<open>Dates that fail the check\<close>

lemma not_in_window_if_unparsable:
  assumes "parseDMYtoMs E tz (get b ''added_date'') = None"
  shows "\<not> in_week E tz now b" "\<not> in_month E tz now b"
  using assms by (simp_all add: in_week_def in_month_def Let_def)

lemma exec_dmy_31_02_2024: "exec_dmy ''31/02/2024'' = Some (''31'', ''02'', ''2024'')"
  by (simp add: exec_dmy_def digits_def is_digit_def)

lemma march_second: "MonthFromTime (MakeDay 2024 1 31 * msPerDay) = 2"
  by code_simp

lemma parse_31_02_2024:
  assumes "parsed_text E (JStr ''31/02/2024'') = ''31/02/2024''"
  shows "parseDMYtoMs E tz (JStr ''31/02/2024'') = None"
proof (rule parseDMYtoMs_mismatch)
  show "exec_dmy (parsed_text E (JStr ''31/02/2024'')) = Some (''31'', ''02'', ''2024'')"
    by (simp add: assms exec_dmy_31_02_2024)
  have "getMonth tz (Date_ymd tz 2024 1 31) + 1 \<noteq> 2"
    by (simp add: getters_Date_ymd march_second)
  then show "getFullYear tz (Date_ymd tz (int (digits_value ''2024'' 0))
          (int (digits_value ''02'' 0) - 1) (int (digits_value ''31'' 0)))
        \<noteq> int (digits_value ''2024'' 0)
      \<or> getMonth tz (Date_ymd tz (int (digits_value ''2024'' 0))
          (int (digits_value ''02'' 0) - 1) (int (digits_value ''31'' 0))) + 1
        \<noteq> int (digits_value ''02'' 0)
      \<or> getDate tz (Date_ymd tz (int (digits_value ''2024'' 0))
          (int (digits_value ''02'' 0) - 1) (int (digits_value ''31'' 0)))
        \<noteq> int (digits_value ''31'' 0)"
    by simp
qed

text \<open>
  Claim C3. \<open>parsed_text E v\<close> is the trimmed string the parser reads from a value.
  \<^item> When the parser returns a time, the text matched the pattern, the time is the date
    built from the three numbers, the date read back from it has the same year, month and
    day, and the numbers are a date of the calendar: a month from 1 to 12 and a day from 1
    to the length of that month in that year.
  \<^item> When the text matches the pattern and the date built from the three numbers reads
    back with another year, month or day, the parser returns \<open>NaN\<close> (\<open>None\<close>).
  \<^item> A bet whose \<open>added_date\<close> the parser rejects is selected neither by the WEEK filter
    nor by the MONTH filter, for every list and every reading \<open>now\<close> of the clock; both
    filters always return.
  \<^item> The string \<^verbatim>\<open>31/02/2024\<close> is rejected, in every time zone.
\<close>

theorem unparsable_dates_excluded:
  "(parseDMYtoMs E tz v = Some t \<longrightarrow>
      (\<exists>m1 m2 m3. exec_dmy (parsed_text E v) = Some (m1, m2, m3)
         \<and> t = Date_ymd tz (int (digits_value m3 0)) (int (digits_value m2 0) - 1)
                  (int (digits_value m1 0))
         \<and> getFullYear tz t = int (digits_value m3 0)
         \<and> getMonth tz t + 1 = int (digits_value m2 0)
         \<and> getDate tz t = int (digits_value m1 0)
         \<and> 1 \<le> int (digits_value m2 0) \<and> int (digits_value m2 0) \<le> 12
         \<and> 1 \<le> int (digits_value m1 0)
         \<and> int (digits_value m1 0)
             \<le> days_in_month (int (digits_value m2 0) - 1)
                  (if DaysInYear (int (digits_value m3 0)) = 366 then 1 else 0)))
   \<and> (exec_dmy (parsed_text E v) = Some (n1, n2, n3)
        \<and> (getFullYear tz (Date_ymd tz (int (digits_value n3 0)) (int (digits_value n2 0) - 1)
                (int (digits_value n1 0))) \<noteq> int (digits_value n3 0)
           \<or> getMonth tz (Date_ymd tz (int (digits_value n3 0)) (int (digits_value n2 0) - 1)
                (int (digits_value n1 0))) + 1 \<noteq> int (digits_value n2 0)
           \<or> getDate tz (Date_ymd tz (int (digits_value n3 0)) (int (digits_value n2 0) - 1)
                (int (digits_value n1 0))) \<noteq> int (digits_value n1 0))
      \<longrightarrow> parseDMYtoMs E tz v = None)
   \<and> (parseDMYtoMs E tz (get b ''added_date'') = None \<longrightarrow>
        \<not> in_week E tz now b \<and> \<not> in_month E tz now b
        \<and> (\<exists>ws. filterBetsByAddedDate E tz now bets WEEK = Inr ws \<and> b \<notin> set ws)
        \<and> (\<exists>ms. filterBetsByAddedDate E tz now bets MONTH = Inr ms \<and> b \<notin> set ms))
   \<and> (parsed_text E (JStr ''31/02/2024'') = ''31/02/2024'' \<longrightarrow>
        parseDMYtoMs E tz (JStr ''31/02/2024'') = None)"
proof -
  have a: "parseDMYtoMs E tz v = Some t \<longrightarrow>
      (\<exists>m1 m2 m3. exec_dmy (parsed_text E v) = Some (m1, m2, m3)
         \<and> t = Date_ymd tz (int (digits_value m3 0)) (int (digits_value m2 0) - 1)
                  (int (digits_value m1 0))
         \<and> getFullYear tz t = int (digits_value m3 0)
         \<and> getMonth tz t + 1 = int (digits_value m2 0)
         \<and> getDate tz t = int (digits_value m1 0)
         \<and> 1 \<le> int (digits_value m2 0) \<and> int (digits_value m2 0) \<le> 12
         \<and> 1 \<le> int (digits_value m1 0)
         \<and> int (digits_value m1 0)
             \<le> days_in_month (int (digits_value m2 0) - 1)
                  (if DaysInYear (int (digits_value m3 0)) = 366 then 1 else 0))"
  proof
    assume "parseDMYtoMs E tz v = Some t"
    then obtain m1 m2 m3 where m: "exec_dmy (parsed_text E v) = Some (m1, m2, m3)"
      "t = Date_ymd tz (int (digits_value m3 0)) (int (digits_value m2 0) - 1)
              (int (digits_value m1 0))"
      "getFullYear tz t = int (digits_value m3 0)"
      "getMonth tz t + 1 = int (digits_value m2 0)"
      "getDate tz t = int (digits_value m1 0)"
      by (rule parseDMYtoMs_Some)
    note c = accepted_is_calendar_date [OF m(3,4,5)]
    show "\<exists>m1 m2 m3. exec_dmy (parsed_text E v) = Some (m1, m2, m3)
         \<and> t = Date_ymd tz (int (digits_value m3 0)) (int (digits_value m2 0) - 1)
                  (int (digits_value m1 0))
         \<and> getFullYear tz t = int (digits_value m3 0)
         \<and> getMonth tz t + 1 = int (digits_value m2 0)
         \<and> getDate tz t = int (digits_value m1 0)
         \<and> 1 \<le> int (digits_value m2 0) \<and> int (digits_value m2 0) \<le> 12
         \<and> 1 \<le> int (digits_value m1 0)
         \<and> int (digits_value m1 0)
             \<le> days_in_month (int (digits_value m2 0) - 1)
                  (if DaysInYear (int (digits_value m3 0)) = 366 then 1 else 0)"
      using m c by blast
  qed
  have b: "exec_dmy (parsed_text E v) = Some (n1, n2, n3)
        \<and> (getFullYear tz (Date_ymd tz (int (digits_value n3 0)) (int (digits_value n2 0) - 1)
                (int (digits_value n1 0))) \<noteq> int (digits_value n3 0)
           \<or> getMonth tz (Date_ymd tz (int (digits_value n3 0)) (int (digits_value n2 0) - 1)
                (int (digits_value n1 0))) + 1 \<noteq> int (digits_value n2 0)
           \<or> getDate tz (Date_ymd tz (int (digits_value n3 0)) (int (digits_value n2 0) - 1)
                (int (digits_value n1 0))) \<noteq> int (digits_value n1 0))
      \<longrightarrow> parseDMYtoMs E tz v = None"
    using parseDMYtoMs_mismatch [of E v n1 n2 n3 tz] by blast
  have c: "parseDMYtoMs E tz (get b ''added_date'') = None \<longrightarrow>
        \<not> in_week E tz now b \<and> \<not> in_month E tz now b
        \<and> (\<exists>ws. filterBetsByAddedDate E tz now bets WEEK = Inr ws \<and> b \<notin> set ws)
        \<and> (\<exists>ms. filterBetsByAddedDate E tz now bets MONTH = Inr ms \<and> b \<notin> set ms)"
    by (simp add: not_in_window_if_unparsable filterBetsByAddedDate_def)
  have d: "parsed_text E (JStr ''31/02/2024'') = ''31/02/2024'' \<longrightarrow>
        parseDMYtoMs E tz (JStr ''31/02/2024'') = None"
    by (simp add: parse_31_02_2024)
  show ?thesis
    using a b c d by - (intro conjI; assumption)
qed

text \<open>Bets for concrete instances, by their dates.\<close>

definition dated_bet :: "string \<Rightarrow> obj" where
  "dated_bet s = [''added_date'' \<mapsto> JStr s, ''status'' \<mapsto> JStr STATUS_WON]"

lemma sample_parses:
  "parsed_text sample_builtins (JStr ''31/02/2024'') = ''31/02/2024''"
  "parseDMYtoMs sample_builtins 0 (JStr ''29/02/2024'') = Some 1709164800000"
  by code_simp+

text \<open>With the stand-in for \<open>trim\<close>, in UTC, on 3 November 2026: the date
  \<^verbatim>\<open>31/02/2024\<close> is rejected and a bet that carries it is in neither window; the date
  \<^verbatim>\<open>29/02/2024\<close> is accepted and reads back as 29 February 2024.\<close>

theorem unparsable_dates_excluded_witness:
  "parsed_text sample_builtins (JStr ''31/02/2024'') = ''31/02/2024''
   \<and> parseDMYtoMs sample_builtins 0 (get (dated_bet ''31/02/2024'') ''added_date'') = None
   \<and> \<not> in_week sample_builtins 0 1793664000000 (dated_bet ''31/02/2024'')
   \<and> \<not> in_month sample_builtins 0 1793664000000 (dated_bet ''31/02/2024'')
   \<and> (\<exists>ws. filterBetsByAddedDate sample_builtins 0 1793664000000 [dated_bet ''31/02/2024''] WEEK
          = Inr ws \<and> dated_bet ''31/02/2024'' \<notin> set ws)
   \<and> (\<exists>ms. filterBetsByAddedDate sample_builtins 0 1793664000000 [dated_bet ''31/02/2024''] MONTH
          = Inr ms \<and> dated_bet ''31/02/2024'' \<notin> set ms)
   \<and> parseDMYtoMs sample_builtins 0 (JStr ''29/02/2024'') = Some 1709164800000
   \<and> getFullYear 0 1709164800000 = 2024 \<and> getMonth 0 1709164800000 + 1 = 2
   \<and> getDate 0 1709164800000 = 29"
proof -
  have g: "get (dated_bet ''31/02/2024'') ''added_date'' = JStr ''31/02/2024''"
    by (simp add: dated_bet_def get_def)
  note th = unparsable_dates_excluded [where E = sample_builtins and tz = 0
      and v = "JStr ''29/02/2024''" and t = 1709164800000 and b = "dated_bet ''31/02/2024''"
      and now = 1793664000000 and bets = "[dated_bet ''31/02/2024'']"]
  have n: "parseDMYtoMs sample_builtins 0 (JStr ''31/02/2024'') = None"
    using th sample_parses(1) by blast
  have w: "\<not> in_week sample_builtins 0 1793664000000 (dated_bet ''31/02/2024'')
      \<and> \<not> in_month sample_builtins 0 1793664000000 (dated_bet ''31/02/2024'')
      \<and> (\<exists>ws. filterBetsByAddedDate sample_builtins 0 1793664000000 [dated_bet ''31/02/2024''] WEEK
          = Inr ws \<and> dated_bet ''31/02/2024'' \<notin> set ws)
      \<and> (\<exists>ms. filterBetsByAddedDate sample_builtins 0 1793664000000 [dated_bet ''31/02/2024''] MONTH
          = Inr ms \<and> dated_bet ''31/02/2024'' \<notin> set ms)"
    using th [THEN conjunct2, THEN conjunct2, THEN conjunct1] n by (simp only: g) blast
  have s: "\<exists>m1 m2 m3. exec_dmy (parsed_text sample_builtins (JStr ''29/02/2024'')) = Some (m1, m2, m3)
         \<and> getFullYear 0 1709164800000 = int (digits_value m3 0)
         \<and> getMonth 0 1709164800000 + 1 = int (digits_value m2 0)
         \<and> getDate 0 1709164800000 = int (digits_value m1 0)"
    using th [THEN conjunct1] sample_parses(2) by blast
  have p: "parsed_text sample_builtins (JStr ''29/02/2024'') = ''29/02/2024''"
    by code_simp
  have e: "exec_dmy ''29/02/2024'' = Some (''29'', ''02'', ''2024'')"
    by (simp add: exec_dmy_def digits_def is_digit_def)
  have r: "getFullYear 0 1709164800000 = 2024 \<and> getMonth 0 1709164800000 + 1 = 2
      \<and> getDate 0 1709164800000 = 29"
    using s by (simp add: p e)
  show ?thesis
    using sample_parses n w r by (simp add: g)
qed

subsection \<open>Nesting of the windows\<close>


















end
